theory Spec2Isabelle
  imports Main
begin

section \<open>Python values, exceptions and text\<close>

text \<open>
  The program is dynamically typed Python. A value that flows through its dictionaries
  (an update record, the decoded JSON answer of the model, the summary) is a \<open>pyval\<close>.
  Dictionaries keep insertion order and have string keys, so they are association lists.
  Text is a HOL \<open>string\<close>, one \<open>char\<close> per code point; the model is exact for text whose
  code points are below 256. Every \<open>raise\<close> of the source is a value \<open>Inl e\<close>.
\<close>

datatype pyexc =
    ValueError
  | JSONDecodeError
  | TypeError
  | AttributeError
  | KeyError
  | OverflowError
  | OtherError string

datatype pyfloat = Finite int int | Infinite bool | NaN

datatype pyval =
    PNone
  | PBool bool
  | PInt int
  | PFloat pyfloat
  | PStr string
  | PList "pyval list"
  | PDict "(string \<times> pyval) list"

type_synonym pydict = "(string \<times> pyval) list"

definition has_key :: "pydict \<Rightarrow> string \<Rightarrow> bool" where
  "has_key d k = (k \<in> set (map fst d))"

definition dict_get :: "pydict \<Rightarrow> string \<Rightarrow> pyval \<Rightarrow> pyval" where
  \<comment> \<open>\<open>d.get(k, default)\<close>\<close>
  "dict_get d k dflt = (case map_of d k of Some v \<Rightarrow> v | None \<Rightarrow> dflt)"

fun dict_set :: "pydict \<Rightarrow> string \<Rightarrow> pyval \<Rightarrow> pydict" where
  \<comment> \<open>\<open>d[k] = v\<close>: an existing key keeps its place, a new key goes last\<close>
  "dict_set [] k v = [(k, v)]"
| "dict_set ((k', v') # d) k v =
     (if k' = k then (k', v) # d else (k', v') # dict_set d k v)"

definition dict_setdefault :: "pydict \<Rightarrow> string \<Rightarrow> pyval \<Rightarrow> pydict" where
  "dict_setdefault d k v = (if has_key d k then d else dict_set d k v)"

subsection \<open>String methods\<close>

definition nl :: char where
  "nl = CHR 0x0A"

definition py_isspace :: "char \<Rightarrow> bool" where
  \<comment> \<open>the characters \<open>str.strip()\<close> removes, among code points below 256\<close>
  "py_isspace c = (let n = (of_char c :: nat) in
     (9 \<le> n \<and> n \<le> 13) \<or> (28 \<le> n \<and> n \<le> 32) \<or> n = 133 \<or> n = 160)"

definition strip :: "string \<Rightarrow> string" where
  "strip s = rev (dropWhile py_isspace (rev (dropWhile py_isspace s)))"

definition startswith :: "'a list \<Rightarrow> 'a list \<Rightarrow> bool" where
  "startswith s p = (take (length p) s = p)"

definition endswith :: "'a list \<Rightarrow> 'a list \<Rightarrow> bool" where
  "endswith s p = (length p \<le> length s \<and> drop (length s - length p) s = p)"

definition lower_char :: "char \<Rightarrow> char" where
  "lower_char c = (let n = (of_char c :: nat) in
     if (65 \<le> n \<and> n \<le> 90) \<or> (192 \<le> n \<and> n \<le> 222 \<and> n \<noteq> 215)
     then char_of (n + 32) else c)"

definition lower :: "string \<Rightarrow> string" where
  "lower s = map lower_char s"

fun contains :: "string \<Rightarrow> string \<Rightarrow> bool" where
  \<comment> \<open>\<open>sub in s\<close> for two strings\<close>
  "contains [] sub = (sub = [])"
| "contains (c # s) sub = (startswith (c # s) sub \<or> contains s sub)"

fun cons_first :: "'a \<Rightarrow> 'a list list \<Rightarrow> 'a list list" where
  "cons_first c [] = [[c]]"
| "cons_first c (l # ls) = (c # l) # ls"

fun split_from :: "'a list \<Rightarrow> nat \<Rightarrow> 'a list \<Rightarrow> 'a list list" where
  \<comment> \<open>\<open>s.split(sep)\<close> for a non-empty \<open>sep\<close>; the counter skips the rest of a
      separator that has just been matched\<close>
  "split_from sep k [] = [[]]"
| "split_from sep (Suc k) (c # s) = split_from sep k s"
| "split_from sep 0 (c # s) =
     (if startswith (c # s) sep then [] # split_from sep (length sep - 1) s
      else cons_first c (split_from sep 0 s))"

definition split :: "'a list \<Rightarrow> 'a list \<Rightarrow> 'a list list" where
  "split s sep = split_from sep 0 s"

fun replace_from :: "'a list \<Rightarrow> 'a list \<Rightarrow> nat \<Rightarrow> 'a list \<Rightarrow> 'a list" where
  \<comment> \<open>\<open>s.replace(old, new)\<close> for a non-empty \<open>old\<close>\<close>
  "replace_from old new k [] = []"
| "replace_from old new (Suc k) (c # s) = replace_from old new k s"
| "replace_from old new 0 (c # s) =
     (if startswith (c # s) old then new @ replace_from old new (length old - 1) s
      else c # replace_from old new 0 s)"

definition replace :: "'a list \<Rightarrow> 'a list \<Rightarrow> 'a list \<Rightarrow> 'a list" where
  "replace s old new = replace_from old new 0 s"

fun join_lines :: "string list \<Rightarrow> string" where
  \<comment> \<open>\<open>'\n'.join(ls)\<close>\<close>
  "join_lines [] = []"
| "join_lines [l] = l"
| "join_lines (l # ls) = l @ nl # join_lines ls"

definition digit_char :: "nat \<Rightarrow> char" where
  "digit_char d = char_of (48 + d)"

fun str_nat :: "nat \<Rightarrow> string" where
  \<comment> \<open>\<open>str(n)\<close> of a non-negative integer\<close>
  "str_nat n = (if n < 10 then [digit_char n] else str_nat (n div 10) @ [digit_char (n mod 10)])"

declare str_nat.simps [simp del]

subsection \<open>Operators that may raise\<close>

fun py_in :: "string \<Rightarrow> pyval \<Rightarrow> pyexc + bool" where
  \<comment> \<open>\<open>k in v\<close> for a string \<open>k\<close>\<close>
  "py_in k (PDict d) = Inr (has_key d k)"
| "py_in k (PList xs) = Inr (PStr k \<in> set xs)"
| "py_in k (PStr s) = Inr (contains s k)"
| "py_in k _ = Inl TypeError"

fun py_getitem :: "pyval \<Rightarrow> string \<Rightarrow> pyexc + pyval" where
  \<comment> \<open>\<open>v[k]\<close> for a string \<open>k\<close>\<close>
  "py_getitem (PDict d) k = (case map_of d k of Some v \<Rightarrow> Inr v | None \<Rightarrow> Inl KeyError)"
| "py_getitem _ k = Inl TypeError"

fun py_setitem :: "pyval \<Rightarrow> string \<Rightarrow> pyval \<Rightarrow> pyexc + pyval" where
  \<comment> \<open>\<open>v[k] = x\<close> for a string \<open>k\<close>; the result is the object after the assignment\<close>
  "py_setitem (PDict d) k x = Inr (PDict (dict_set d k x))"
| "py_setitem _ k x = Inl TypeError"

fun py_setdefault :: "pyval \<Rightarrow> string \<Rightarrow> pyval \<Rightarrow> pyexc + pyval" where
  \<comment> \<open>\<open>v.setdefault(k, x)\<close>; the result is the object after the call\<close>
  "py_setdefault (PDict d) k x = Inr (PDict (dict_setdefault d k x))"
| "py_setdefault _ k x = Inl AttributeError"

section \<open>The effects of a run\<close>

text \<open>
  The outside world is a set of oracles, one per remote service, indexed by the attempt
  number: an oracle answers \<open>Inl e\<close> when the call raises. What a function does to the
  world is the list of events it returns next to its result.
\<close>

text \<open>
  A chat message is text with the pictographs of the message templates (U+1F50D and so
  on) and their bullet (U+2022), all above code point 255: a character of a message is a
  code point below 256 or one of these eight signs. None of the signs is white space.
\<close>

datatype pictograph =
  Magnifier | Bar_chart | Clipboard | New_button | Money_bag | Loudspeaker | Calendar | Bullet

datatype mchar = Ch char | Pict pictograph

type_synonym message = "mchar list"

definition plain :: "string \<Rightarrow> message" where
  "plain s = map Ch s"

definition mchar_isspace :: "mchar \<Rightarrow> bool" where
  "mchar_isspace c = (case c of Ch c' \<Rightarrow> py_isspace c' | Pict p \<Rightarrow> False)"

definition strip_message :: "message \<Rightarrow> message" where
  \<comment> \<open>\<open>str.strip()\<close> on a message\<close>
  "strip_message m = rev (dropWhile mchar_isspace (rev (dropWhile mchar_isspace m)))"

datatype block = Header message | Section message | Divider

record payload =
  p_text :: message
  p_username :: string
  p_icon_emoji :: string
  p_blocks :: "block list"

datatype event =
    Generate string
  | Sleep nat
  | Call_send_message message
  | SlackPost payload
  | Call_update_page pyval
  | NotionPost pyval

section \<open>ai\_analyzer.py\<close>

definition prompt_before :: "string list" where
  \<open>prompt_before =
    [''You are a competitive intelligence analyst. Analyze the following competitor updates and provide a structured summary.'',
     '''',
     ''COMPETITOR UPDATES:'']\<close>

definition prompt_after :: "string list" where
  \<open>prompt_after =
    ['''',
     ''Please provide your analysis in the following JSON format:'',
     '''',
     ''{'',
     ''    "summary": "A concise 2-3 sentence summary of the most important developments",'',
     ''    "categories": {'',
     ''        "new_features": ['',
     ''            "List of new features or product updates mentioned"'',
     ''        ],'',
     ''        "pricing_changes": ['',
     ''            "List of any pricing updates, plans, or monetization changes"'',
     ''        ],'',
     ''        "messaging_updates": ['',
     ''            "List of branding, positioning, or marketing message changes"'',
     ''        ]'',
     ''    },'',
     ''    "key_insights": ['',
     ''        "List of 3-5 strategic insights or competitive implications"'',
     ''    ],'',
     ''    "threat_level": "low/medium/high - based on competitive threat",'',
     ''    "recommended_actions": ['',
     ''        "List of 2-3 recommended responses or actions"'',
     ''    ]'',
     ''}'',
     '''',
     ''Focus on:'',
     ''1. New product features or capabilities'',
     ''2. Pricing strategy changes'',
     ''3. Market positioning shifts'',
     ''4. Competitive advantages or threats'',
     ''5. Customer experience improvements'',
     '''',
     ''Be concise but comprehensive. If no significant updates are found, indicate that in the summary.'',
     '''',
     ''IMPORTANT: Respond ONLY with valid JSON. No additional text or formatting.'']\<close>

definition build_analysis_prompt :: "string \<Rightarrow> string" where
  \<comment> \<open>the f-string of \<open>_build_analysis_prompt\<close>, line by line; the fourth line is
      \<open>{updates_text[:8000]}\<close> followed by two blanks\<close>
  "build_analysis_prompt updates_text =
     join_lines (prompt_before @ [take 8000 updates_text @ ''  ''] @ prompt_after)"

definition summary_like :: "string \<Rightarrow> bool" where
  \<comment> \<open>the test of line 151, on the stripped line\<close>
  "summary_like line =
     (length line > 50 \<and>
      (contains (lower line) ''update'' \<or> contains (lower line) ''competitor''))"

definition extract_summary_fallback :: "string \<Rightarrow> string" where
  "extract_summary_fallback txt =
     (case List.find summary_like (map strip (take 10 (split txt [nl]))) of
        Some line \<Rightarrow> take 300 line
      | None \<Rightarrow> ''Analysis completed but summary extraction failed.'')"

definition empty_categories :: pyval where
  "empty_categories =
     PDict [(''new_features'', PList []),
            (''pricing_changes'', PList []),
            (''messaging_updates'', PList [])]"

definition extract_partial_analysis :: "string \<Rightarrow> pyval" where
  "extract_partial_analysis response_text =
     PDict [(''summary'', PStr (extract_summary_fallback response_text)),
            (''categories'', empty_categories),
            (''key_insights'', PList []),
            (''threat_level'', PStr ''medium''),
            (''recommended_actions'', PList [])]"

definition source_line_count :: "string \<Rightarrow> nat" where
  \<comment> \<open>\<open>len([line for line in lines if line.startswith('Source:')])\<close>\<close>
  "source_line_count updates_text =
     length (filter (\<lambda>line. startswith line ''Source:'') (split updates_text [nl]))"

definition get_fallback_analysis :: "string \<Rightarrow> pyval" where
  "get_fallback_analysis updates_text =
     (let update_count = source_line_count updates_text in
      PDict [(''summary'', PStr (''Collected '' @ str_nat update_count @
                '' competitor updates this week. AI analysis temporarily unavailable - manual review recommended.'')),
             (''categories'', empty_categories),
             (''key_insights'',
                PList [PStr ''AI analysis failed - manual review needed'',
                       PStr (str_nat update_count @ '' updates collected for review'')]),
             (''threat_level'', PStr ''medium''),
             (''recommended_actions'',
                PList [PStr ''Review collected updates manually'',
                       PStr ''Check AI service status and retry analysis''])])"

definition clean_response :: "string \<Rightarrow> string" where
  \<comment> \<open>lines 94 to 98 and the \<open>strip\<close> of line 101\<close>
  "clean_response response_text =
     (let c0 = strip response_text;
          c1 = (if startswith c0 ''```json'' then drop 7 c0 else c0);
          c2 = (if endswith c1 ''```'' then take (length c1 - 3) c1 else c1)
      in strip c2)"

fun require_keys :: "string list \<Rightarrow> pyval \<Rightarrow> pyexc + unit" where
  "require_keys [] analysis = Inr ()"
| "require_keys (key # keys) analysis =
     (case py_in key analysis of
        Inl e \<Rightarrow> Inl e
      | Inr True \<Rightarrow> require_keys keys analysis
      | Inr False \<Rightarrow> Inl ValueError)"

fun fill_categories :: "string list \<Rightarrow> pyval \<Rightarrow> pyexc + pyval" where
  "fill_categories [] categories = Inr categories"
| "fill_categories (cat_key # cat_keys) categories =
     (case py_in cat_key categories of
        Inl e \<Rightarrow> Inl e
      | Inr True \<Rightarrow> fill_categories cat_keys categories
      | Inr False \<Rightarrow>
          (case py_setitem categories cat_key (PList []) of
             Inl e \<Rightarrow> Inl e
           | Inr categories' \<Rightarrow> fill_categories cat_keys categories'))"

definition category_keys :: "string list" where
  "category_keys = [''new_features'', ''pricing_changes'', ''messaging_updates'']"

definition ensure_categories :: "pyval \<Rightarrow> pyexc + pyval" where
  \<comment> \<open>lines 110 to 114; the sub-dictionary is mutated in place, so the analysis holds
      the filled one afterwards\<close>
  "ensure_categories analysis =
     (case py_in ''categories'' analysis of
        Inl e \<Rightarrow> Inl e
      | Inr False \<Rightarrow> Inr analysis
      | Inr True \<Rightarrow>
          (case py_getitem analysis ''categories'' of
             Inl e \<Rightarrow> Inl e
           | Inr categories \<Rightarrow>
               (case fill_categories category_keys categories of
                  Inl e \<Rightarrow> Inl e
                | Inr categories' \<Rightarrow> py_setitem analysis ''categories'' categories')))"

definition validate_analysis :: "pyval \<Rightarrow> pyexc + pyval" where
  \<comment> \<open>lines 103 to 120\<close>
  "validate_analysis analysis =
     (case require_keys [''summary'', ''categories'', ''key_insights''] analysis of
        Inl e \<Rightarrow> Inl e
      | Inr _ \<Rightarrow>
          (case ensure_categories analysis of
             Inl e \<Rightarrow> Inl e
           | Inr a1 \<Rightarrow>
               (case py_setdefault a1 ''threat_level'' (PStr ''medium'') of
                  Inl e \<Rightarrow> Inl e
                | Inr a2 \<Rightarrow> py_setdefault a2 ''recommended_actions'' (PList []))))"

definition parse_analysis_response ::
  "(string \<Rightarrow> pyexc + pyval) \<Rightarrow> string \<Rightarrow> pyexc + pyval" where
  \<comment> \<open>\<open>loads\<close> is \<open>json.loads\<close>; only \<open>JSONDecodeError\<close> is turned into the partial
      analysis, any other exception is raised again\<close>
  "parse_analysis_response loads response_text =
     (case (case loads (clean_response response_text) of
              Inl e \<Rightarrow> Inl e
            | Inr analysis \<Rightarrow> validate_analysis analysis)
      of Inl e \<Rightarrow> (if e = JSONDecodeError then Inr (extract_partial_analysis response_text)
                   else Inl e)
       | Inr analysis \<Rightarrow> Inr analysis)"

definition analysis_attempt ::
  "(nat \<Rightarrow> string \<Rightarrow> pyexc + string) \<Rightarrow> (string \<Rightarrow> pyexc + pyval) \<Rightarrow> string \<Rightarrow> nat
     \<Rightarrow> pyexc + pyval" where
  \<comment> \<open>the body of the \<open>try\<close> of \<open>analyze_updates\<close>; \<open>generate_content k prompt\<close> is
      \<open>response.text\<close> of the \<open>k\<close>-th call\<close>
  "analysis_attempt generate_content loads prompt attempt =
     (case generate_content attempt prompt of
        Inl e \<Rightarrow> Inl e
      | Inr response_text \<Rightarrow>
          if response_text = [] then Inl ValueError
          else parse_analysis_response loads response_text)"

fun analyze_loop ::
  "(nat \<Rightarrow> string \<Rightarrow> pyexc + string) \<Rightarrow> (string \<Rightarrow> pyexc + pyval) \<Rightarrow> string \<Rightarrow> string
     \<Rightarrow> int \<Rightarrow> nat list \<Rightarrow> event list \<times> pyval" where
  "analyze_loop generate_content loads prompt updates_text retry_count [] = ([], PNone)"
| "analyze_loop generate_content loads prompt updates_text retry_count (attempt # rest) =
     (case analysis_attempt generate_content loads prompt attempt of
        Inr analysis \<Rightarrow> ([Generate prompt], analysis)
      | Inl e \<Rightarrow>
          if int attempt < retry_count - 1
          then (case analyze_loop generate_content loads prompt updates_text retry_count rest of
                  (evs, r) \<Rightarrow> (Generate prompt # Sleep (2 ^ attempt) # evs, r))
          else ([Generate prompt], get_fallback_analysis updates_text))"

definition analyze_updates ::
  "(nat \<Rightarrow> string \<Rightarrow> pyexc + string) \<Rightarrow> (string \<Rightarrow> pyexc + pyval) \<Rightarrow> string \<Rightarrow> int
     \<Rightarrow> event list \<times> pyval" where
  \<comment> \<open>a loop that ends without \<open>return\<close> gives \<open>None\<close>\<close>
  "analyze_updates generate_content loads updates_text retry_count =
     analyze_loop generate_content loads (build_analysis_prompt updates_text) updates_text
       retry_count [0..<nat retry_count]"

section \<open>integrations.py\<close>

definition emoji_mag :: message where
  "emoji_mag = [Pict Magnifier]"

definition emoji_chart :: message where
  "emoji_chart = [Pict Bar_chart]"

definition emoji_clipboard :: message where
  "emoji_clipboard = [Pict Clipboard]"

definition emoji_new :: message where
  "emoji_new = [Pict New_button]"

definition emoji_money :: message where
  "emoji_money = [Pict Money_bag]"

definition emoji_loudspeaker :: message where
  "emoji_loudspeaker = [Pict Loudspeaker]"

definition emoji_calendar :: message where
  "emoji_calendar = [Pict Calendar]"

definition bullet :: message where
  "bullet = [Pict Bullet]"

definition format_blocks :: "message \<Rightarrow> block list" where
  "format_blocks message =
     concat (map (\<lambda>section.
                if strip_message section \<noteq> [] then
                  [if startswith section (emoji_mag @ plain '' **'')
                   then Header (strip_message
                                  (replace (replace section (emoji_mag @ plain '' **'') [])
                                     (plain ''**'') []))
                   else Section section]
                else [])
             (split message [Ch nl, Ch nl]))
     @ [Divider]"

definition slack_payload :: "message \<Rightarrow> payload" where
  "slack_payload message =
     \<lparr>p_text = message, p_username = ''Competitor Bot'', p_icon_emoji = '':mag:'',
      p_blocks = format_blocks message\<rparr>"

definition backoff :: "nat \<Rightarrow> int \<Rightarrow> event list" where
  \<comment> \<open>\<open>if attempt < retry_count - 1: time.sleep(2 ** attempt)\<close>\<close>
  "backoff attempt retry_count = (if int attempt < retry_count - 1 then [Sleep (2 ^ attempt)] else [])"

fun send_loop ::
  "(nat \<Rightarrow> payload \<Rightarrow> pyexc + int) \<Rightarrow> payload \<Rightarrow> int \<Rightarrow> nat list \<Rightarrow> event list \<times> bool" where
  "send_loop post pl retry_count [] = ([], False)"
| "send_loop post pl retry_count (attempt # rest) =
     (case post attempt pl of
        Inr status_code \<Rightarrow>
          if status_code = 200 then ([SlackPost pl], True)
          else (case send_loop post pl retry_count rest of
                  (evs, r) \<Rightarrow> (SlackPost pl # evs, r))
      | Inl e \<Rightarrow>
          (case send_loop post pl retry_count rest of
             (evs, r) \<Rightarrow> (SlackPost pl # backoff attempt retry_count @ evs, r)))"

definition send_message ::
  "(nat \<Rightarrow> payload \<Rightarrow> pyexc + int) \<Rightarrow> message \<Rightarrow> int \<Rightarrow> event list \<times> bool" where
  \<comment> \<open>\<open>post k pl\<close> is the status code of the \<open>k\<close>-th \<open>session.post\<close>, or what it raises\<close>
  "send_message post message retry_count =
     (case send_loop post (slack_payload message) retry_count [0..<nat retry_count] of
        (evs, r) \<Rightarrow> (Call_send_message message # evs, r))"

fun update_loop ::
  "(pyval \<Rightarrow> pyexc + pyval) \<Rightarrow> (nat \<Rightarrow> pyval \<Rightarrow> pyexc + int) \<Rightarrow> pyval \<Rightarrow> int \<Rightarrow> nat list
     \<Rightarrow> event list \<times> bool" where
  "update_loop build_page_content post content retry_count [] = ([], False)"
| "update_loop build_page_content post content retry_count (attempt # rest) =
     (case build_page_content content of
        Inl e \<Rightarrow>
          (case update_loop build_page_content post content retry_count rest of
             (evs, r) \<Rightarrow> (backoff attempt retry_count @ evs, r))
      | Inr page_data \<Rightarrow>
          (case post attempt page_data of
             Inr status_code \<Rightarrow>
               if status_code = 200 then ([NotionPost page_data], True)
               else (case update_loop build_page_content post content retry_count rest of
                       (evs, r) \<Rightarrow> (NotionPost page_data # evs, r))
           | Inl e \<Rightarrow>
               (case update_loop build_page_content post content retry_count rest of
                  (evs, r) \<Rightarrow> (NotionPost page_data # backoff attempt retry_count @ evs, r))))"

definition update_page ::
  "(pyval \<Rightarrow> pyexc + pyval) \<Rightarrow> (nat \<Rightarrow> pyval \<Rightarrow> pyexc + int) \<Rightarrow> pyval \<Rightarrow> int
     \<Rightarrow> event list \<times> bool" where
  \<comment> \<open>\<open>build_page_content\<close> stands for \<open>_build_page_content\<close>, which runs inside the
      \<open>try\<close> and whose page body no property here reads\<close>
  "update_page build_page_content post content retry_count =
     (case update_loop build_page_content post content retry_count [0..<nat retry_count] of
        (evs, r) \<Rightarrow> (Call_update_page content # evs, r))"

section \<open>main.py\<close>

subsection \<open>The filter\<close>

text \<open>
  A \<open>datetime\<close> is its wall-clock reading in microseconds since 0001-01-01T00:00:00 and,
  when it is timezone-aware, its UTC offset. \<open>datetime.now()\<close> is naive.
\<close>

record pydatetime =
  wall :: int
  utcoffset :: "int option"

definition micros_per_day :: int where
  "micros_per_day = 86400000000"

definition datetime_max :: int where
  \<comment> \<open>9999-12-31T23:59:59.999999\<close>
  "datetime_max = 3652059 * micros_per_day - 1"

definition cutoff_date :: "int \<Rightarrow> int \<Rightarrow> pyexc + int" where
  \<comment> \<open>\<open>datetime.now() - timedelta(days=days)\<close>, a naive datetime\<close>
  "cutoff_date now days =
     (if days < - 999999999 \<or> 999999999 < days then Inl OverflowError
      else let c = now - days * micros_per_day in
           if c < 0 \<or> datetime_max < c then Inl OverflowError else Inr c)"

definition fromisoformat_arg ::
  "(string \<Rightarrow> pyexc + pydatetime) \<Rightarrow> pyval \<Rightarrow> pyexc + pydatetime" where
  \<comment> \<open>\<open>datetime.fromisoformat(v)\<close>: the library parser on a string, \<open>TypeError\<close> otherwise\<close>
  "fromisoformat_arg fromisoformat v =
     (case v of PStr s \<Rightarrow> fromisoformat s | _ \<Rightarrow> Inl TypeError)"

definition later_than :: "pydatetime \<Rightarrow> int \<Rightarrow> pyexc + bool" where
  \<comment> \<open>\<open>update_date > cutoff_date\<close> with a naive right-hand side\<close>
  "later_than update_date cutoff =
     (case utcoffset update_date of
        None \<Rightarrow> Inr (cutoff < wall update_date)
      | Some off \<Rightarrow> Inl TypeError)"

definition is_value_or_type_error :: "pyexc \<Rightarrow> bool" where
  \<comment> \<open>\<open>except (ValueError, TypeError)\<close>; \<open>JSONDecodeError\<close> is a \<open>ValueError\<close>\<close>
  "is_value_or_type_error e = (e = ValueError \<or> e = JSONDecodeError \<or> e = TypeError)"

fun filter_loop ::
  "(string \<Rightarrow> pyexc + pydatetime) \<Rightarrow> int \<Rightarrow> pydict list \<Rightarrow> pyexc + pydict list" where
  "filter_loop fromisoformat cutoff [] = Inr []"
| "filter_loop fromisoformat cutoff (update # updates) =
     (case (case fromisoformat_arg fromisoformat (dict_get update ''date'' (PStr [])) of
              Inl e \<Rightarrow> Inl e
            | Inr update_date \<Rightarrow> later_than update_date cutoff)
      of Inr recent \<Rightarrow>
           (case filter_loop fromisoformat cutoff updates of
              Inl e \<Rightarrow> Inl e
            | Inr rest \<Rightarrow> Inr (if recent then update # rest else rest))
       | Inl e \<Rightarrow>
           if is_value_or_type_error e
           then (case filter_loop fromisoformat cutoff updates of
                   Inl e' \<Rightarrow> Inl e'
                 | Inr rest \<Rightarrow> Inr (update # rest))
           else Inl e)"

definition filter_recent_updates ::
  "(string \<Rightarrow> pyexc + pydatetime) \<Rightarrow> int \<Rightarrow> pydict list \<Rightarrow> int \<Rightarrow> pyexc + pydict list" where
  \<comment> \<open>\<open>now\<close> is the reading of \<open>datetime.now()\<close>\<close>
  "filter_recent_updates fromisoformat now updates days =
     (case cutoff_date now days of
        Inl e \<Rightarrow> Inl e
      | Inr cutoff \<Rightarrow> filter_loop fromisoformat cutoff updates)"

subsection \<open>The summary\<close>

definition str_int :: "int \<Rightarrow> string" where
  "str_int i = (if i < 0 then CHR ''-'' # str_nat (nat (- i)) else str_nat (nat i))"

definition fmt :: "(pyval \<Rightarrow> string) \<Rightarrow> pyval \<Rightarrow> string" where
  \<comment> \<open>a replacement field \<open>{v}\<close> of an f-string; \<open>str_of\<close> is \<open>str\<close> on floats, lists
      and dictionaries\<close>
  "fmt str_of v =
     (case v of
        PStr s \<Rightarrow> s
      | PInt i \<Rightarrow> str_int i
      | PNone \<Rightarrow> ''None''
      | PBool b \<Rightarrow> (if b then ''True'' else ''False'')
      | _ \<Rightarrow> str_of v)"

definition format_update :: "(pyval \<Rightarrow> string) \<Rightarrow> pydict \<Rightarrow> string" where
  "format_update str_of update =
     (let source = dict_get update ''source'' (PStr ''Unknown'');
          title = dict_get update ''title'' (PStr ''No title'');
          content = dict_get update ''content'' (dict_get update ''description'' (PStr []));
          date = dict_get update ''date'' (PStr ''Unknown date'')
      in ''Source: '' @ fmt str_of source @ [nl] @ ''Date: '' @ fmt str_of date @ [nl] @
         ''Title: '' @ fmt str_of title @ [nl] @ ''Content: '' @ fmt str_of content @ [nl] @
         ''---'')"

definition format_updates_for_analysis :: "(pyval \<Rightarrow> string) \<Rightarrow> pydict list \<Rightarrow> string" where
  "format_updates_for_analysis str_of updates = join_lines (map (format_update str_of) updates)"

definition no_updates_summary :: pyval where
  "no_updates_summary =
     PDict [(''summary'', PStr ''No significant competitor updates found this week.''),
            (''categories'', empty_categories),
            (''total_updates'', PInt 0)]"

definition generate_summary ::
  "(nat \<Rightarrow> string \<Rightarrow> pyexc + string) \<Rightarrow> (string \<Rightarrow> pyexc + pyval) \<Rightarrow> (pyval \<Rightarrow> string)
     \<Rightarrow> pydict list \<Rightarrow> event list \<times> (pyexc + pyval)" where
  "generate_summary generate_content loads str_of updates =
     (if updates = [] then ([], Inr no_updates_summary)
      else
        (case analyze_updates generate_content loads
                (format_updates_for_analysis str_of updates) 3 of
           (evs, summary) \<Rightarrow>
             (evs, py_setitem summary ''total_updates'' (PInt (int (length updates))))))"

subsection \<open>The notifications\<close>

fun py_get :: "pyval \<Rightarrow> string \<Rightarrow> pyval \<Rightarrow> pyexc + pyval" where
  \<comment> \<open>\<open>v.get(k, default)\<close>\<close>
  "py_get (PDict d) k dflt = Inr (dict_get d k dflt)"
| "py_get _ k dflt = Inl AttributeError"

fun truthy :: "pyval \<Rightarrow> bool" where
  "truthy PNone = False"
| "truthy (PBool b) = b"
| "truthy (PInt i) = (i \<noteq> 0)"
| "truthy (PFloat f) = (case f of Finite m e \<Rightarrow> m \<noteq> 0 | _ \<Rightarrow> True)"
| "truthy (PStr s) = (s \<noteq> [])"
| "truthy (PList xs) = (xs \<noteq> [])"
| "truthy (PDict d) = (d \<noteq> [])"

fun py_len :: "pyval \<Rightarrow> pyexc + nat" where
  "py_len (PStr s) = Inr (length s)"
| "py_len (PList xs) = Inr (length xs)"
| "py_len (PDict d) = Inr (length d)"
| "py_len _ = Inl TypeError"

fun py_slice_to :: "nat \<Rightarrow> pyval \<Rightarrow> pyexc + pyval list" where
  \<comment> \<open>the items of \<open>v[:n]\<close> as a \<open>for\<close> loop sees them; slicing a dictionary
      raises \<open>TypeError\<close> up to Python 3.11 and \<open>KeyError\<close> from 3.12 on, and every
      handler around it catches both\<close>
  "py_slice_to n (PList xs) = Inr (take n xs)"
| "py_slice_to n (PStr s) = Inr (map (\<lambda>c. PStr [c]) (take n s))"
| "py_slice_to n _ = Inl TypeError"

definition category_lines ::
  "(pyval \<Rightarrow> string) \<Rightarrow> pyval \<Rightarrow> string \<Rightarrow> message \<Rightarrow> message \<Rightarrow> pyexc + message" where
  \<comment> \<open>one \<open>if categories.get(key):\<close> block of \<open>_format_slack_message\<close>\<close>
  "category_lines str_of categories key heading trailer =
     (case py_get categories key PNone of
        Inl e \<Rightarrow> Inl e
      | Inr v \<Rightarrow>
          if \<not> truthy v then Inr []
          else
            (case py_getitem categories key of
               Inl e \<Rightarrow> Inl e
             | Inr items \<Rightarrow>
                 (case py_len items of
                    Inl e \<Rightarrow> Inl e
                  | Inr n \<Rightarrow>
                      (case py_slice_to 5 items of
                         Inl e \<Rightarrow> Inl e
                       | Inr shown \<Rightarrow>
                           Inr (heading @ plain ('' ('' @ str_nat n @ ''):'' @ [nl]) @
                                concat (map (\<lambda>item. bullet @ plain ('' '' @ fmt str_of item @ [nl]))
                                          shown) @
                                trailer)))))"

definition format_slack_message ::
  "(pyval \<Rightarrow> string) \<Rightarrow> string \<Rightarrow> pyval \<Rightarrow> pyexc + message" where
  \<comment> \<open>\<open>generated\<close> is \<open>datetime.now().strftime('%Y-%m-%d %H:%M')\<close>\<close>
  "format_slack_message str_of generated summary =
     (case py_get summary ''total_updates'' (PInt 0) of
        Inl e \<Rightarrow> Inl e
      | Inr total_updates \<Rightarrow>
     (case py_get summary ''summary'' (PStr ''No updates'') of
        Inl e \<Rightarrow> Inl e
      | Inr summ \<Rightarrow>
     (case py_get summary ''categories'' (PDict []) of
        Inl e \<Rightarrow> Inl e
      | Inr categories \<Rightarrow>
     (case category_lines str_of categories ''new_features''
             (emoji_new @ plain '' **New Features**'') (plain [nl]) of
        Inl e \<Rightarrow> Inl e
      | Inr features \<Rightarrow>
     (case category_lines str_of categories ''pricing_changes''
             (emoji_money @ plain '' **Pricing Changes**'') (plain [nl]) of
        Inl e \<Rightarrow> Inl e
      | Inr pricing \<Rightarrow>
     (case category_lines str_of categories ''messaging_updates''
             (emoji_loudspeaker @ plain '' **Messaging Updates**'') [] of
        Inl e \<Rightarrow> Inl e
      | Inr messaging \<Rightarrow>
          Inr (emoji_mag @ plain ('' **Weekly Competitor Intelligence Report**'' @ [nl, nl]) @
               emoji_chart @ plain ('' **Total Updates**: '' @ fmt str_of total_updates @ [nl, nl]) @
               emoji_clipboard @ plain ('' **Summary**:'' @ [nl] @ fmt str_of summ @ [nl, nl]) @
               features @ pricing @ messaging @
               plain [nl] @ emoji_calendar @ plain ('' Generated: '' @ generated))))))))"

definition format_notion_content :: "string \<Rightarrow> string \<Rightarrow> pyval \<Rightarrow> pyexc + pyval" where
  \<comment> \<open>\<open>week\<close> is \<open>datetime.now().strftime('%Y-%m-%d')\<close>, \<open>generated_at\<close> is
      \<open>datetime.now().isoformat()\<close>\<close>
  "format_notion_content week generated_at summary =
     (case py_get summary ''summary'' (PStr []) of
        Inl e \<Rightarrow> Inl e
      | Inr summ \<Rightarrow>
     (case py_get summary ''total_updates'' (PInt 0) of
        Inl e \<Rightarrow> Inl e
      | Inr total_updates \<Rightarrow>
     (case py_get summary ''categories'' (PDict []) of
        Inl e \<Rightarrow> Inl e
      | Inr categories \<Rightarrow>
          Inr (PDict [(''title'', PStr (''Competitor Intelligence - Week of '' @ week)),
                      (''summary'', summ),
                      (''total_updates'', total_updates),
                      (''categories'', categories),
                      (''generated_at'', PStr generated_at)]))))"

record notifiers =
  slack_post :: "nat \<Rightarrow> payload \<Rightarrow> pyexc + int"
  build_page_content :: "pyval \<Rightarrow> pyexc + pyval"
  notion_post :: "nat \<Rightarrow> pyval \<Rightarrow> pyexc + int"

record clock =
  slack_generated :: string
  notion_week :: string
  notion_generated_at :: string

definition send_notifications ::
  "notifiers \<Rightarrow> (pyval \<Rightarrow> string) \<Rightarrow> clock \<Rightarrow> pyval \<Rightarrow> event list \<times> pyexc option" where
  \<comment> \<open>one \<open>try\<close> around both notifiers; the second component is the exception its
      handler logged, if any\<close>
  "send_notifications ns str_of clk summary =
     (case format_slack_message str_of (slack_generated clk) summary of
        Inl e \<Rightarrow> ([], Some e)
      | Inr slack_message \<Rightarrow>
          (case send_message (slack_post ns) slack_message 3 of
             (evs1, sent) \<Rightarrow>
               (case format_notion_content (notion_week clk) (notion_generated_at clk) summary of
                  Inl e \<Rightarrow> (evs1, Some e)
                | Inr notion_content \<Rightarrow>
                    (case update_page (build_page_content ns) (notion_post ns) notion_content 3 of
                       (evs2, updated) \<Rightarrow> (evs1 @ evs2, None)))))"

section \<open>Stand-ins and stated properties\<close>

text \<open>
  The library functions and the remote services are parameters of the model. A closed
  statement needs closed ones: a parser known on a finite table of texts (every other
  text is rejected), a service that gives the same answer at every attempt.
\<close>

definition loads_table :: "(string \<times> pyval) list \<Rightarrow> string \<Rightarrow> pyexc + pyval" where
  "loads_table tbl s = (case map_of tbl s of Some v \<Rightarrow> Inr v | None \<Rightarrow> Inl JSONDecodeError)"

definition fromisoformat_table ::
  "(string \<times> pydatetime) list \<Rightarrow> string \<Rightarrow> pyexc + pydatetime" where
  "fromisoformat_table tbl s = (case map_of tbl s of Some d \<Rightarrow> Inr d | None \<Rightarrow> Inl ValueError)"

definition always_answer :: "string \<Rightarrow> nat \<Rightarrow> string \<Rightarrow> pyexc + string" where
  "always_answer response_text attempt prompt = Inr response_text"

definition always_raise :: "pyexc \<Rightarrow> nat \<Rightarrow> 'a \<Rightarrow> pyexc + 'b" where
  "always_raise e attempt request = Inl e"

definition always_status :: "int \<Rightarrow> nat \<Rightarrow> 'a \<Rightarrow> pyexc + int" where
  "always_status status_code attempt request = Inr status_code"

definition str_stub :: "pyval \<Rightarrow> string" where
  "str_stub v = ''?''"

definition page_stub :: "pyval \<Rightarrow> pyexc + pyval" where
  "page_stub content = Inr content"

definition failing_slack :: notifiers where
  "failing_slack =
     \<lparr>slack_post = always_status 500, build_page_content = page_stub,
      notion_post = always_status 200\<rparr>"

definition test_clock :: clock where
  "test_clock =
     \<lparr>slack_generated = ''2024-01-10 12:00'', notion_week = ''2024-01-10'',
      notion_generated_at = ''2024-01-10T12:00:00''\<rparr>"

definition nat_of_str :: "string \<Rightarrow> nat" where
  \<comment> \<open>the number a string of decimal digits denotes\<close>
  "nat_of_str s = foldl (\<lambda>a c. 10 * a + (of_char c - 48)) 0 s"

definition is_decimal_of :: "string \<Rightarrow> nat \<Rightarrow> bool" where
  \<comment> \<open>\<open>digits\<close> is the decimal numeral of \<open>n\<close>: digits only, no leading zero\<close>
  "is_decimal_of digits n =
     (digits \<noteq> [] \<and> (\<forall>c\<in>set digits. 48 \<le> (of_char c :: nat) \<and> (of_char c :: nat) \<le> 57) \<and>
      (length digits = 1 \<or> hd digits \<noteq> CHR ''0'') \<and> nat_of_str digits = n)"

definition same_ignoring_case :: "string \<Rightarrow> string \<Rightarrow> bool" where
  \<comment> \<open>\<open>w\<close> spells the lower-case word \<open>target\<close>, each letter in either case\<close>
  "same_ignoring_case w target =
     list_all2 (\<lambda>c t. c = t \<or> (of_char c :: nat) + 32 = of_char t) w target"

definition spec_summary_line :: "string \<Rightarrow> bool" where
  \<comment> \<open>in the spec's words: a line over 50 characters containing "update" or
      "competitor", whatever the case of the letters\<close>
  "spec_summary_line line =
     (50 < length line \<and>
      (\<exists>pre w post. line = pre @ w @ post \<and>
         (same_ignoring_case w ''update'' \<or> same_ignoring_case w ''competitor'')))"

definition categories_filled :: "pyval \<Rightarrow> bool" where
  \<comment> \<open>\<open>all(k in result['categories'] for k in the three names)\<close>\<close>
  "categories_filled result =
     (case py_getitem result ''categories'' of
        Inr categories \<Rightarrow> list_all (\<lambda>k. py_in k categories = Inr True) category_keys
      | Inl e \<Rightarrow> False)"

definition analysis_keys :: "string list" where
  "analysis_keys =
     [''summary'', ''categories'', ''key_insights'', ''threat_level'', ''recommended_actions'']"

definition has_keys :: "string list \<Rightarrow> pyval \<Rightarrow> bool" where
  "has_keys ks v = (case v of PDict d \<Rightarrow> list_all (has_key d) ks | _ \<Rightarrow> False)"

definition json_fence :: "string \<Rightarrow> string" where
  "json_fence body = ''```json'' @ [nl] @ body @ [nl] @ ''```''"

definition plain_fence :: "string \<Rightarrow> string" where
  "plain_fence body = ''```'' @ [nl] @ body @ [nl] @ ''```''"

definition with_default :: "pydict \<Rightarrow> string \<Rightarrow> pyval \<Rightarrow> pydict" where
  \<comment> \<open>a missing key is added, with the default, after the others\<close>
  "with_default d k v = (if map_of d k = None then d @ [(k, v)] else d)"

definition name_in :: "string \<Rightarrow> pyval \<Rightarrow> bool" where
  \<comment> \<open>Python's \<open>name in v\<close> holds: a key of a dictionary, an element of a list, a part
      of a string\<close>
  "name_in name v =
     (case v of
        PDict d \<Rightarrow> name \<in> fst ` set d
      | PList xs \<Rightarrow> PStr name \<in> set xs
      | PStr s \<Rightarrow> (\<exists>pre post. s = pre @ name @ post)
      | _ \<Rightarrow> False)"

definition filled :: "pydict \<Rightarrow> pydict" where
  \<comment> \<open>each category name that is missing is added with an empty list\<close>
  "filled cd =
     with_default
       (with_default (with_default cd ''new_features'' (PList [])) ''pricing_changes'' (PList []))
       ''messaging_updates'' (PList [])"

definition backfilled :: "pydict \<Rightarrow> pydict \<Rightarrow> pydict" where
  \<comment> \<open>the parsed object \<open>d\<close> with categories \<open>c\<close>: the three sub-lists back-filled,
      then the two optional fields defaulted\<close>
  "backfilled d c =
     with_default
       (with_default
          (map (\<lambda>(k, v). if k = ''categories''
                  then (k, PDict (with_default
                                    (with_default
                                       (with_default c ''new_features'' (PList []))
                                       ''pricing_changes'' (PList []))
                                    ''messaging_updates'' (PList [])))
                  else (k, v)) d)
          ''threat_level'' (PStr ''medium''))
       ''recommended_actions'' (PList [])"

definition list_categories_text :: string where
  \<open>list_categories_text =
     ''{"summary": "s", "categories": ["new_features", "pricing_changes", "messaging_updates"], "key_insights": []}''\<close>

definition list_categories_json :: pyval where
  "list_categories_json =
     PDict [(''summary'', PStr ''s''),
            (''categories'',
               PList [PStr ''new_features'', PStr ''pricing_changes'', PStr ''messaging_updates'']),
            (''key_insights'', PList [])]"

definition string_values_text :: string where
  \<open>string_values_text =
     ''{"summary": "s", "categories": {"new_features": "soon", "pricing_changes": 3}, "key_insights": []}''\<close>

definition string_values_json :: pyval where
  "string_values_json =
     PDict [(''summary'', PStr ''s''),
            (''categories'',
               PDict [(''new_features'', PStr ''soon''), (''pricing_changes'', PInt 3)]),
            (''key_insights'', PList [])]"

definition wrong_types_text :: string where
  \<open>wrong_types_text =
     ''{"summary": 1, "categories": ["new_features", "pricing_changes", "messaging_updates"], "key_insights": 5, "threat_level": "critical", "recommended_actions": "none"}''\<close>

definition wrong_types_json :: pyval where
  "wrong_types_json =
     PDict [(''summary'', PInt 1),
            (''categories'',
               PList [PStr ''new_features'', PStr ''pricing_changes'', PStr ''messaging_updates'']),
            (''key_insights'', PInt 5),
            (''threat_level'', PStr ''critical''),
            (''recommended_actions'', PStr ''none'')]"

definition minimal_text :: string where
  \<open>minimal_text = ''{"summary": "s", "categories": {}, "key_insights": []}''\<close>

definition minimal_json :: pydict where
  "minimal_json =
     [(''summary'', PStr ''s''), (''categories'', PDict []), (''key_insights'', PList [])]"

definition one_update :: pydict where
  "one_update =
     [(''title'', PStr ''Launch''), (''content'', PStr ''A new plan''),
      (''date'', PStr ''2024-01-09T12:00:00''), (''source'', PStr ''Acme''),
      (''source_type'', PStr ''rss'')]"

definition candidate_lines :: "string \<Rightarrow> string list" where
  \<comment> \<open>the first ten lines of a text, each stripped\<close>
  "candidate_lines response_text = map strip (take 10 (split response_text [nl]))"

definition long_line :: string where
  "long_line = ''Our main competitor shipped a major update to its pricing page today.''"

definition eleven_lines :: string where
  \<comment> \<open>ten lines \<open>x\<close>, then \<open>long_line\<close> as the eleventh\<close>
  "eleven_lines = concat (replicate 10 (''x'' @ [nl])) @ long_line"

definition padded_line :: string where
  "padded_line = ''   '' @ long_line @ ''  ''"

definition salvage_text :: string where
  "salvage_text = ''Sorry, no JSON.'' @ [nl] @ padded_line"

definition healthy :: notifiers where
  "healthy =
     \<lparr>slack_post = always_status 200, build_page_content = page_stub,
      notion_post = always_status 200\<rparr>"

definition number_text :: string where
  \<open>number_text = ''{"summary": "s", "categories": {"new_features": 5}, "key_insights": []}''\<close>

definition number_json :: pyval where
  "number_json =
     PDict [(''summary'', PStr ''s''), (''categories'', PDict [(''new_features'', PInt 5)]),
            (''key_insights'', PList [])]"

definition odd_summary :: pyval where
  \<comment> \<open>the summary of a run in which the model sent a number as \<open>new_features\<close>\<close>
  "odd_summary =
     PDict [(''summary'', PStr ''s''),
            (''categories'', PDict [(''new_features'', PInt 5),
                                    (''pricing_changes'', PList []),
                                    (''messaging_updates'', PList [])]),
            (''key_insights'', PList []),
            (''threat_level'', PStr ''medium''),
            (''recommended_actions'', PList []),
            (''total_updates'', PInt 1)]"

definition quiet_message :: message where
  "quiet_message =
     emoji_mag @ plain ('' **Weekly Competitor Intelligence Report**'' @ [nl, nl]) @
     emoji_chart @ plain ('' **Total Updates**: 0'' @ [nl, nl]) @
     emoji_clipboard @ plain ('' **Summary**:'' @ [nl] @
       ''No significant competitor updates found this week.'' @ [nl, nl]) @
     plain [nl] @ emoji_calendar @ plain '' Generated: 2024-01-10 12:00''"

definition now_reading :: int where
  \<comment> \<open>2024-01-10T12:00:00\<close>
  "now_reading = 63840484800000000"

definition iso_table :: "(string \<times> pydatetime) list" where
  "iso_table =
     [(''2024-01-02T12:00:00'', \<lparr>wall = 63839793600000000, utcoffset = None\<rparr>),
      (''2024-01-02T12:00:00+00:00'', \<lparr>wall = 63839793600000000, utcoffset = Some 0\<rparr>),
      (''2024-01-09T12:00:00'', \<lparr>wall = 63840398400000000, utcoffset = None\<rparr>)]"

definition old_naive :: pydict where
  "old_naive = [(''title'', PStr ''a''), (''date'', PStr ''2024-01-02T12:00:00'')]"

definition old_aware :: pydict where
  "old_aware = [(''title'', PStr ''b''), (''date'', PStr ''2024-01-02T12:00:00+00:00'')]"

definition recent_naive :: pydict where
  "recent_naive = [(''title'', PStr ''c''), (''date'', PStr ''2024-01-09T12:00:00'')]"

definition undated :: pydict where
  "undated = [(''title'', PStr ''d''), (''date'', PStr ''January 5, 2024'')]"

definition no_summary_found :: string where
  "no_summary_found = ''Analysis completed but summary extraction failed.''"

definition two_sources :: string where
  "two_sources = ''Source: a'' @ [nl] @ ''x'' @ [nl] @ ''Source: b''"

definition late_source :: string where
  \<comment> \<open>8000 characters without a line break, then one \<open>Source:\<close> line\<close>
  "late_source = replicate 8000 (CHR ''x'') @ nl # ''Source: late''"

section \<open>Properties\<close>

lemma upt_three: "[0..<nat 3] = [0, 1, 2]"
  by (simp add: upt_rec numeral_eq_Suc)

subsection \<open>Dictionaries\<close>

lemma map_of_dict_set [simp]: "map_of (dict_set d k v) = (map_of d)(k \<mapsto> v)"
  by (induction d) auto

lemma has_key_map_of: "has_key d k \<longleftrightarrow> map_of d k \<noteq> None"
  by (simp add: has_key_def map_of_eq_None_iff)

lemma has_key_dict_set [simp]: "has_key (dict_set d k v) k' = (k' = k \<or> has_key d k')"
  by (simp add: has_key_map_of)

lemma has_key_dict_setdefault [simp]:
  "has_key (dict_setdefault d k v) k' = (k' = k \<or> has_key d k')"
  by (auto simp: dict_setdefault_def)

lemma map_of_dict_setdefault:
  "map_of (dict_setdefault d k v) k' = (if k' = k \<and> \<not> has_key d k then Some v else map_of d k')"
  by (auto simp: dict_setdefault_def)

lemma py_setitem_Inr: "py_setitem c k v = Inr c' \<Longrightarrow> \<exists>d. c = PDict d \<and> c' = PDict (dict_set d k v)"
  by (cases c) auto

lemma py_getitem_Inr: "py_getitem a k = Inr v \<Longrightarrow> \<exists>d. a = PDict d \<and> map_of d k = Some v"
  by (cases a) (auto split: option.splits)

lemma require_keys_Inr: "require_keys ks a = Inr u \<Longrightarrow> k \<in> set ks \<Longrightarrow> py_in k a = Inr True"
  by (induction ks) (auto split: sum.splits bool.splits)

lemma fill_categories_keeps:
  "fill_categories ks c = Inr c' \<Longrightarrow> py_in k c = Inr True \<Longrightarrow> py_in k c' = Inr True"
proof (induction ks arbitrary: c)
  case Nil
  then show ?case by simp
next
  case (Cons k' ks)
  show ?case
  proof (cases "py_in k' c")
    case (Inl e)
    with Cons.prems show ?thesis by simp
  next
    case (Inr b)
    show ?thesis
    proof (cases b)
      case True
      with Inr Cons show ?thesis by simp
    next
      case False
      with Inr Cons.prems(1) obtain c1 where
        s: "py_setitem c k' (PList []) = Inr c1" and f: "fill_categories ks c1 = Inr c'"
        by (auto split: sum.splits)
      from py_setitem_Inr [OF s] Cons.prems(2) have "py_in k c1 = Inr True" by auto
      with Cons.IH f show ?thesis by blast
    qed
  qed
qed

lemma fill_categories_fills:
  "fill_categories ks c = Inr c' \<Longrightarrow> k \<in> set ks \<Longrightarrow> py_in k c' = Inr True"
proof (induction ks arbitrary: c)
  case Nil
  then show ?case by simp
next
  case (Cons k' ks)
  show ?case
  proof (cases "py_in k' c")
    case (Inl e)
    with Cons.prems show ?thesis by simp
  next
    case (Inr b)
    show ?thesis
    proof (cases b)
      case True
      with Inr Cons.prems have f: "fill_categories ks c = Inr c'" by simp
      show ?thesis
      proof (cases "k = k'")
        case True
        with fill_categories_keeps [OF f] Inr \<open>b\<close> show ?thesis by simp
      next
        case False
        with Cons.prems(2) Cons.IH [OF f] show ?thesis by simp
      qed
    next
      case False
      with Inr Cons.prems(1) obtain c1 where
        s: "py_setitem c k' (PList []) = Inr c1" and f: "fill_categories ks c1 = Inr c'"
        by (auto split: sum.splits)
      show ?thesis
      proof (cases "k = k'")
        case True
        from py_setitem_Inr [OF s] have "py_in k' c1 = Inr True" by auto
        with fill_categories_keeps [OF f] True show ?thesis by simp
      next
        case False
        with Cons.prems(2) Cons.IH [OF f] show ?thesis by simp
      qed
    qed
  qed
qed

subsection \<open>The shape of an analysis\<close>

lemma analyze_updates_3:
  "analyze_updates g l t 3 = analyze_loop g l (build_analysis_prompt t) t 3 [0, 1, 2]"
  by (simp only: analyze_updates_def upt_three)

lemma nat_of_str_snoc: "nat_of_str (s @ [c]) = 10 * nat_of_str s + (of_char c - 48)"
  by (simp add: nat_of_str_def)

lemma nat_of_str_digit: "d < 10 \<Longrightarrow> nat_of_str [digit_char d] = d"
  by (simp add: nat_of_str_def digit_char_def)

lemma nat_of_str_str_nat: "nat_of_str (str_nat n) = n"
proof (induction n rule: str_nat.induct)
  case (1 n)
  show ?case
  proof (cases "n < 10")
    case True
    then show ?thesis by (simp add: str_nat.simps [of n] nat_of_str_digit)
  next
    case False
    have "of_char (digit_char (n mod 10)) - 48 = n mod 10"
      by (simp add: digit_char_def)
    with False 1 show ?thesis
      by (simp add: str_nat.simps [of n] nat_of_str_snoc)
  qed
qed

lemma ensure_categories_Inr:
  assumes "ensure_categories a = Inr a1" and "py_in ''categories'' a = Inr True"
  shows "\<exists>d c c'. a = PDict d \<and> map_of d ''categories'' = Some c \<and>
           fill_categories category_keys c = Inr c' \<and>
           a1 = PDict (dict_set d ''categories'' c')"
proof -
  from assms obtain c where g: "py_getitem a ''categories'' = Inr c"
    by (auto simp: ensure_categories_def split: sum.splits)
  from py_getitem_Inr [OF g] obtain d where d: "a = PDict d" "map_of d ''categories'' = Some c"
    by blast
  from assms g obtain c' where f: "fill_categories category_keys c = Inr c'"
    by (auto simp: ensure_categories_def split: sum.splits)
  from assms g f d have "a1 = PDict (dict_set d ''categories'' c')"
    by (simp add: ensure_categories_def)
  with d f show ?thesis by blast
qed

lemma validate_analysis_Inr:
  assumes "validate_analysis a = Inr r"
  shows "\<exists>d c c'. a = PDict d \<and> has_key d ''summary'' \<and> has_key d ''key_insights'' \<and>
           map_of d ''categories'' = Some c \<and> fill_categories category_keys c = Inr c' \<and>
           r = PDict (dict_setdefault
                        (dict_setdefault (dict_set d ''categories'' c')
                           ''threat_level'' (PStr ''medium''))
                        ''recommended_actions'' (PList []))"
proof -
  from assms obtain u where rk: "require_keys [''summary'', ''categories'', ''key_insights''] a = Inr u"
    by (auto simp: validate_analysis_def split: sum.splits)
  have k1: "py_in ''summary'' a = Inr True" and k2: "py_in ''categories'' a = Inr True"
    and k3: "py_in ''key_insights'' a = Inr True"
    using require_keys_Inr [OF rk] by simp_all
  from assms rk obtain a1 where e: "ensure_categories a = Inr a1"
    by (auto simp: validate_analysis_def split: sum.splits)
  from ensure_categories_Inr [OF e k2] obtain d c c' where
    d: "a = PDict d" "map_of d ''categories'' = Some c"
       "fill_categories category_keys c = Inr c'" "a1 = PDict (dict_set d ''categories'' c')"
    by blast
  from assms rk e d have
    "r = PDict (dict_setdefault (dict_setdefault (dict_set d ''categories'' c')
                  ''threat_level'' (PStr ''medium'')) ''recommended_actions'' (PList []))"
    by (simp add: validate_analysis_def)
  with d k1 k3 show ?thesis by auto
qed

lemma validate_analysis_shape:
  assumes "validate_analysis a = Inr r"
  shows "has_keys analysis_keys r \<and> categories_filled r"
proof -
  from validate_analysis_Inr [OF assms] obtain d c c' where
    d: "has_key d ''summary''" "has_key d ''key_insights''"
       "fill_categories category_keys c = Inr c'"
       "r = PDict (dict_setdefault (dict_setdefault (dict_set d ''categories'' c')
                  ''threat_level'' (PStr ''medium'')) ''recommended_actions'' (PList []))"
    by blast
  have keys: "has_keys analysis_keys r"
    using d by (simp add: has_keys_def analysis_keys_def)
  have "\<And>k. k \<in> set category_keys \<Longrightarrow> py_in k c' = Inr True"
    using fill_categories_fills [OF d(3)] by blast
  then have "categories_filled r"
    using d(4) by (simp add: categories_filled_def map_of_dict_setdefault list_all_iff)
  with keys show ?thesis by simp
qed

lemma extract_partial_analysis_shape:
  "has_keys analysis_keys (extract_partial_analysis response) \<and>
   categories_filled (extract_partial_analysis response)"
  by (simp add: extract_partial_analysis_def has_keys_def analysis_keys_def has_key_def
        categories_filled_def category_keys_def empty_categories_def)

lemma get_fallback_analysis_shape:
  "has_keys analysis_keys (get_fallback_analysis t) \<and> categories_filled (get_fallback_analysis t)"
  by (simp add: get_fallback_analysis_def Let_def has_keys_def analysis_keys_def has_key_def
        categories_filled_def category_keys_def empty_categories_def)

lemma analysis_attempt_shape:
  assumes "analysis_attempt g l p k = Inr a"
  shows "has_keys analysis_keys a \<and> categories_filled a"
proof -
  from assms obtain response where p: "parse_analysis_response l response = Inr a"
    by (auto simp: analysis_attempt_def split: sum.splits if_splits)
  then have "a = extract_partial_analysis response \<or> (\<exists>j. validate_analysis j = Inr a)"
    by (auto simp: parse_analysis_response_def split: sum.splits if_splits)
  then show ?thesis
    using extract_partial_analysis_shape validate_analysis_shape by blast
qed

lemma analyze_updates_3_cases:
  "snd (analyze_updates g l t 3) = get_fallback_analysis t \<or>
   (\<exists>k. analysis_attempt g l (build_analysis_prompt t) k = Inr (snd (analyze_updates g l t 3)))"
  by (auto simp: analyze_updates_3 split: sum.splits prod.splits)

lemma analyze_updates_3_shape:
  "has_keys analysis_keys (snd (analyze_updates g l t 3)) \<and>
   categories_filled (snd (analyze_updates g l t 3))"
  using analyze_updates_3_cases [of g l t] analysis_attempt_shape get_fallback_analysis_shape
  by metis

lemma has_keys_PDict: "has_keys ks v \<Longrightarrow> \<exists>d. v = PDict d \<and> (\<forall>k\<in>set ks. has_key d k)"
  by (cases v) (auto simp: has_keys_def list_all_iff)

subsection \<open>Lines and the prompt\<close>

lemma startswith_single: "startswith (c # s) [sep] = (c = sep)"
  by (simp add: startswith_def)

lemma split_line_end: "sep \<notin> set xs \<Longrightarrow> split xs [sep] = [xs]"
  unfolding split_def by (induction xs) (auto simp: startswith_single)

lemma split_line_break:
  "sep \<notin> set xs \<Longrightarrow> split (xs @ sep # ys) [sep] = xs # split ys [sep]"
  unfolding split_def by (induction xs) (auto simp: startswith_single)

lemma source_line_count_late: "source_line_count late_source = 1"
proof -
  have "split late_source [nl] = [replicate 8000 (CHR ''x''), ''Source: late'']"
    unfolding late_source_def
    by (subst split_line_break) (simp_all add: nl_def split_line_end)
  then show ?thesis
    by (simp add: source_line_count_def startswith_def)
qed

lemma source_line_count_late_cut: "source_line_count (take 8000 late_source) = 0"
proof -
  have "take 8000 late_source = replicate 8000 (CHR ''x'')"
    by (simp add: late_source_def)
  moreover have "split (replicate 8000 (CHR ''x'')) [nl] = [replicate 8000 (CHR ''x'')]"
    by (rule split_line_end) (simp add: nl_def)
  ultimately show ?thesis
    by (simp add: source_line_count_def startswith_def)
qed

lemma analyze_loop_events:
  "fst (analyze_loop g l p t rc as) = fst (analyze_loop g l p t' rc as)"
  by (induction as) (auto split: sum.splits prod.splits)

lemma join_lines_Cons: "ls \<noteq> [] \<Longrightarrow> join_lines (l # ls) = l @ nl # join_lines ls"
  by (cases ls) simp_all

lemma join_lines_append:
  "xs \<noteq> [] \<Longrightarrow> ys \<noteq> [] \<Longrightarrow> join_lines (xs @ ys) = join_lines xs @ nl # join_lines ys"
proof (induction xs)
  case Nil
  then show ?case by simp
next
  case (Cons x xs)
  show ?case
  proof (cases "xs = []")
    case True
    with Cons.prems show ?thesis by (simp add: join_lines_Cons)
  next
    case False
    with Cons show ?thesis by (simp add: join_lines_Cons)
  qed
qed

lemma build_analysis_prompt_shape:
  "build_analysis_prompt t =
     join_lines prompt_before @ [nl] @ take 8000 t @ ''  '' @ [nl] @ join_lines prompt_after"
proof -
  have b: "prompt_before \<noteq> []" and a: "prompt_after \<noteq> []"
    by (simp_all add: prompt_before_def prompt_after_def)
  then show ?thesis
    by (simp add: build_analysis_prompt_def join_lines_append join_lines_Cons)
qed

subsection \<open>Answers of the model used as examples\<close>

lemma analyze_updates_always_answer:
  assumes "response_text \<noteq> []" and "parse_analysis_response loads response_text = Inr a"
  shows "snd (analyze_updates (always_answer response_text) loads t 3) = a"
  using assms by (simp add: analyze_updates_3 analysis_attempt_def always_answer_def)

lemma parse_list_categories:
  "parse_analysis_response (loads_table [(list_categories_text, list_categories_json)])
     list_categories_text
   = Inr (PDict [(''summary'', PStr ''s''),
            (''categories'',
               PList [PStr ''new_features'', PStr ''pricing_changes'', PStr ''messaging_updates'']),
            (''key_insights'', PList []),
            (''threat_level'', PStr ''medium''),
            (''recommended_actions'', PList [])])"
  by code_simp

lemma parse_string_values:
  "parse_analysis_response (loads_table [(string_values_text, string_values_json)])
     string_values_text
   = Inr (PDict [(''summary'', PStr ''s''),
            (''categories'',
               PDict [(''new_features'', PStr ''soon''), (''pricing_changes'', PInt 3),
                      (''messaging_updates'', PList [])]),
            (''key_insights'', PList []),
            (''threat_level'', PStr ''medium''),
            (''recommended_actions'', PList [])])"
  by code_simp

lemma snd_generate_summary:
  "updates \<noteq> [] \<Longrightarrow>
   snd (generate_summary g l s updates)
     = py_setitem (snd (analyze_updates g l (format_updates_for_analysis s updates) 3))
         ''total_updates'' (PInt (int (length updates)))"
  by (simp add: generate_summary_def split: prod.splits)

subsection \<open>The code fence and the back-filled object\<close>

lemma dict_set_new: "\<not> has_key d k \<Longrightarrow> dict_set d k v = d @ [(k, v)]"
  by (induction d) (auto simp: has_key_def)

lemma dict_set_old:
  "distinct (map fst d) \<Longrightarrow> has_key d k \<Longrightarrow>
   dict_set d k v = map (\<lambda>(k', v'). if k' = k then (k', v) else (k', v')) d"
proof (induction d)
  case Nil
  then show ?case by (simp add: has_key_def)
next
  case (Cons p d)
  obtain k' v' where p: "p = (k', v')" by (cases p)
  show ?case
  proof (cases "k' = k")
    case True
    with Cons.prems p have "k \<notin> fst ` set d" by simp
    then have "map (\<lambda>(k', v'). if k' = k then (k', v) else (k', v')) d = d"
      by (induction d) auto
    with True p show ?thesis by simp
  next
    case False
    with Cons p show ?thesis by (simp add: has_key_def)
  qed
qed

lemma dict_setdefault_with_default: "dict_setdefault d k v = with_default d k v"
  by (simp add: dict_setdefault_def with_default_def has_key_map_of dict_set_new)

lemma fill_categories_PDict:
  "fill_categories ks (PDict c) = Inr (PDict (foldl (\<lambda>c k. with_default c k (PList [])) c ks))"
proof (induction ks arbitrary: c)
  case Nil
  show ?case by simp
next
  case (Cons k ks)
  show ?case
  proof (cases "has_key c k")
    case True
    then have "with_default c k (PList []) = c"
      by (simp add: with_default_def has_key_map_of)
    with True Cons show ?thesis by simp
  next
    case False
    then have "with_default c k (PList []) = dict_set c k (PList [])"
      by (simp add: with_default_def has_key_map_of dict_set_new)
    with False Cons show ?thesis by simp
  qed
qed

lemma validate_analysis_backfilled:
  assumes "distinct (map fst d)" and "has_key d ''summary''" and "has_key d ''key_insights''"
    and "map_of d ''categories'' = Some (PDict c)"
  shows "validate_analysis (PDict d) = Inr (PDict (backfilled d c))"
proof -
  from assms(4) have hc: "has_key d ''categories''"
    by (simp add: has_key_map_of)
  from assms hc have r: "require_keys [''summary'', ''categories'', ''key_insights''] (PDict d) = Inr ()"
    by simp
  let ?c' = "with_default (with_default (with_default c ''new_features'' (PList []))
                ''pricing_changes'' (PList [])) ''messaging_updates'' (PList [])"
  from assms(4) hc have e: "ensure_categories (PDict d) = Inr (PDict (dict_set d ''categories'' (PDict ?c')))"
    by (simp add: ensure_categories_def fill_categories_PDict category_keys_def)
  have m: "dict_set d ''categories'' (PDict ?c')
          = map (\<lambda>(k, v). if k = ''categories'' then (k, PDict ?c') else (k, v)) d"
    using dict_set_old [OF assms(1) hc] by simp
  show ?thesis
    unfolding validate_analysis_def backfilled_def r e
    by (simp add: m [symmetric] dict_setdefault_with_default)
qed

subsection \<open>The salvaged summary line\<close>

lemma parse_on_decode_error:
  "loads (clean_response response_text) = Inl JSONDecodeError \<Longrightarrow>
   parse_analysis_response loads response_text = Inr (extract_partial_analysis response_text)"
  by (simp add: parse_analysis_response_def)

lemma extract_summary_fallback_found:
  assumes "i < length (candidate_lines t)" and "summary_like (candidate_lines t ! i)"
    and "\<forall>j<i. \<not> summary_like (candidate_lines t ! j)"
  shows "extract_summary_fallback t = take 300 (candidate_lines t ! i)"
proof -
  from assms have "List.find summary_like (candidate_lines t) = Some (candidate_lines t ! i)"
    unfolding find_Some_iff by blast
  then show ?thesis
    by (simp add: extract_summary_fallback_def candidate_lines_def)
qed

lemma extract_summary_fallback_none:
  assumes "\<forall>i<length (candidate_lines t). \<not> summary_like (candidate_lines t ! i)"
  shows "extract_summary_fallback t = no_summary_found"
proof -
  from assms have "List.find summary_like (candidate_lines t) = None"
    unfolding find_None_iff by (metis in_set_conv_nth)
  then show ?thesis
    by (simp add: extract_summary_fallback_def candidate_lines_def no_summary_found_def)
qed

lemma candidate_lines_salvage:
  "candidate_lines salvage_text = [''Sorry, no JSON.'', long_line]"
  by code_simp

lemma summary_like_long_line: "summary_like long_line"
  by code_simp

lemma not_summary_like_sorry: "\<not> summary_like ''Sorry, no JSON.''"
  by code_simp

lemma take_long_line: "take 300 long_line = long_line"
  by code_simp

lemma decode_error_salvage: "loads_table [] (clean_response salvage_text) = Inl JSONDecodeError"
  by (simp add: loads_table_def)

lemma extract_eleven_lines: "extract_summary_fallback eleven_lines = no_summary_found"
  by code_simp

lemma extract_padded_line: "extract_summary_fallback padded_line = long_line"
  by code_simp

subsection \<open>Notifications and the filter\<close>

lemma format_slack_message_dict:
  "format_slack_message str_of generated summary = Inr msg \<Longrightarrow> \<exists>d. summary = PDict d"
  by (cases summary) (simp_all add: format_slack_message_def)

lemma format_notion_content_dict:
  "\<exists>content. format_notion_content week generated_at (PDict d) = Inr content"
  by (simp add: format_notion_content_def)

lemma update_page_events:
  "\<exists>evs. fst (update_page build post content rc) = Call_update_page content # evs"
  by (simp add: update_page_def split: prod.splits)

lemma format_quiet_message:
  "format_slack_message str_stub (slack_generated test_clock) no_updates_summary = Inr quiet_message"
  by code_simp

lemma send_message_3:
  "send_message post message 3
     = (case send_loop post (slack_payload message) 3 [0, 1, 2] of
          (evs, r) \<Rightarrow> (Call_send_message message # evs, r))"
  by (simp only: send_message_def upt_three)

lemma send_quiet_message_fails:
  "snd (send_message (slack_post failing_slack) quiet_message 3) = False"
  by (simp add: send_message_3 failing_slack_def always_status_def)

lemma parse_number:
  "parse_analysis_response (loads_table [(number_text, number_json)]) number_text
   = Inr (PDict [(''summary'', PStr ''s''),
            (''categories'', PDict [(''new_features'', PInt 5),
                                    (''pricing_changes'', PList []),
                                    (''messaging_updates'', PList [])]),
            (''key_insights'', PList []),
            (''threat_level'', PStr ''medium''),
            (''recommended_actions'', PList [])])"
  by code_simp

lemma odd_summary_reached:
  "snd (generate_summary (always_answer number_text) (loads_table [(number_text, number_json)])
          str_stub [one_update]) = Inr odd_summary"
proof -
  have "number_text \<noteq> []" by (simp add: number_text_def)
  then show ?thesis
    by (simp add: snd_generate_summary analyze_updates_always_answer parse_number odd_summary_def)
qed

lemma format_odd_summary:
  "format_slack_message str_stub (slack_generated test_clock) odd_summary = Inl TypeError"
  by code_simp

lemma notion_odd_summary:
  "format_notion_content (notion_week test_clock) (notion_generated_at test_clock) odd_summary
   = Inr (PDict [(''title'', PStr ''Competitor Intelligence - Week of 2024-01-10''),
                 (''summary'', PStr ''s''),
                 (''total_updates'', PInt 1),
                 (''categories'', PDict [(''new_features'', PInt 5),
                                         (''pricing_changes'', PList []),
                                         (''messaging_updates'', PList [])]),
                 (''generated_at'', PStr ''2024-01-10T12:00:00'')])"
  by code_simp

lemma filter_loop_keeps_aware:
  assumes "dict_get update ''date'' (PStr []) = PStr s" and "fromisoformat s = Inr d"
    and "utcoffset d = Some off"
  shows "filter_loop fromisoformat cutoff (update # updates)
           = (case filter_loop fromisoformat cutoff updates of
                Inl e \<Rightarrow> Inl e | Inr rest \<Rightarrow> Inr (update # rest))"
  using assms
  by (simp add: fromisoformat_arg_def later_than_def is_value_or_type_error_def)

lemma filter_loop_naive:
  assumes "dict_get update ''date'' (PStr []) = PStr s" and "fromisoformat s = Inr d"
    and "utcoffset d = None"
  shows "filter_loop fromisoformat cutoff (update # updates)
           = (case filter_loop fromisoformat cutoff updates of
                Inl e \<Rightarrow> Inl e
              | Inr rest \<Rightarrow> Inr (if cutoff < wall d then update # rest else rest))"
  using assms
  by (simp add: fromisoformat_arg_def later_than_def)

subsection \<open>Lines, decimal numerals and the spec-worded tests\<close>

lemma split_lines_decompose:
  "split t [nl] \<noteq> [] \<and> (\<forall>l\<in>set (split t [nl]). nl \<notin> set l) \<and>
   t = concat (map (\<lambda>l. l @ [nl]) (butlast (split t [nl]))) @ last (split t [nl])"
proof (induction t)
  case Nil
  show ?case by (simp add: split_def)
next
  case (Cons c t)
  let ?r = "split t [nl]"
  from Cons obtain l ls where r: "?r = l # ls"
    by (cases ?r) auto
  show ?case
  proof (cases "c = nl")
    case True
    then have "split (c # t) [nl] = [] # ?r"
      by (simp add: split_def startswith_single)
    with Cons r True show ?thesis by simp
  next
    case False
    then have s: "split (c # t) [nl] = (c # l) # ls"
      using r by (simp add: split_def startswith_single)
    from Cons r have t: "t = concat (map (\<lambda>l. l @ [nl]) (butlast (l # ls))) @ last (l # ls)"
      by simp
    have "c # t = concat (map (\<lambda>l. l @ [nl]) (butlast ((c # l) # ls))) @ last ((c # l) # ls)"
      using t by (cases ls) simp_all
    with Cons r False s show ?thesis by simp
  qed
qed

lemma str_nat_digits: "\<forall>c\<in>set (str_nat n). 48 \<le> (of_char c :: nat) \<and> (of_char c :: nat) \<le> 57"
proof (induction n rule: str_nat.induct)
  case (1 n)
  show ?case
  proof (cases "n < 10")
    case True
    then show ?thesis by (simp add: str_nat.simps [of n] digit_char_def)
  next
    case False
    have "n mod 10 < 10" by simp
    then have "48 \<le> (of_char (digit_char (n mod 10)) :: nat) \<and>
               (of_char (digit_char (n mod 10)) :: nat) \<le> 57"
      by (simp add: digit_char_def)
    with False 1 show ?thesis by (simp add: str_nat.simps [of n])
  qed
qed

lemma str_nat_nonempty: "str_nat n \<noteq> []"
  by (simp add: str_nat.simps [of n])

lemma str_nat_leading: "length (str_nat n) = 1 \<or> hd (str_nat n) \<noteq> CHR ''0''"
proof (induction n rule: str_nat.induct)
  case (1 n)
  show ?case
  proof (cases "n < 10")
    case True
    then show ?thesis by (simp add: str_nat.simps [of n])
  next
    case False
    then have d: "n div 10 \<noteq> 0" by simp
    from False 1 have ih: "length (str_nat (n div 10)) = 1 \<or> hd (str_nat (n div 10)) \<noteq> CHR ''0''"
      by simp
    have "hd (str_nat (n div 10)) \<noteq> CHR ''0''"
    proof
      assume z: "hd (str_nat (n div 10)) = CHR ''0''"
      with ih have "length (str_nat (n div 10)) = 1" by simp
      with z have "str_nat (n div 10) = ''0''"
        by (cases "str_nat (n div 10)") simp_all
      then have "nat_of_str (str_nat (n div 10)) = 0"
        by (simp add: nat_of_str_def)
      with d show False by (simp add: nat_of_str_str_nat)
    qed
    with False show ?thesis
      by (simp add: str_nat.simps [of n] str_nat_nonempty)
  qed
qed

lemma str_nat_is_decimal: "is_decimal_of (str_nat n) n"
  unfolding is_decimal_of_def
  using str_nat_digits str_nat_nonempty str_nat_leading nat_of_str_str_nat by blast

lemma fallback_counts_source_lines:
  "\<exists>lines digits.
     lines \<noteq> [] \<and> (\<forall>l\<in>set lines. CHR 0x0A \<notin> set l)
     \<and> t = concat (map (\<lambda>l. l @ [CHR 0x0A]) (butlast lines)) @ last lines
     \<and> is_decimal_of digits (length (filter (\<lambda>l. take 7 l = ''Source:'') lines))
     \<and> py_getitem (get_fallback_analysis t) ''summary''
         = Inr (PStr (''Collected '' @ digits @
             '' competitor updates this week. AI analysis temporarily unavailable - manual review recommended.''))
     \<and> py_getitem (get_fallback_analysis t) ''key_insights''
         = Inr (PList [PStr ''AI analysis failed - manual review needed'',
                       PStr (digits @ '' updates collected for review'')])"
proof -
  let ?ls = "split t [nl]"
  let ?n = "length (filter (\<lambda>l. take 7 l = ''Source:'') ?ls)"
  have "length ''Source:'' = 7"
    by simp
  then have n: "source_line_count t = ?n"
    by (simp only: source_line_count_def startswith_def)
  have "?ls \<noteq> [] \<and> (\<forall>l\<in>set ?ls. CHR 0x0A \<notin> set l)
     \<and> t = concat (map (\<lambda>l. l @ [CHR 0x0A]) (butlast ?ls)) @ last ?ls"
    using split_lines_decompose [of t] by (simp add: nl_def)
  moreover have "is_decimal_of (str_nat ?n) ?n"
    by (rule str_nat_is_decimal)
  moreover have "py_getitem (get_fallback_analysis t) ''summary''
         = Inr (PStr (''Collected '' @ str_nat ?n @
             '' competitor updates this week. AI analysis temporarily unavailable - manual review recommended.''))"
    by (simp add: get_fallback_analysis_def Let_def n)
  moreover have "py_getitem (get_fallback_analysis t) ''key_insights''
         = Inr (PList [PStr ''AI analysis failed - manual review needed'',
                       PStr (str_nat ?n @ '' updates collected for review'')])"
    by (simp add: get_fallback_analysis_def Let_def n)
  ultimately show ?thesis by blast
qed

lemma late_source_summaries:
  "py_getitem (get_fallback_analysis late_source) ''summary''
     = Inr (PStr ''Collected 1 competitor updates this week. AI analysis temporarily unavailable - manual review recommended.'')
   \<and> py_getitem (get_fallback_analysis (take 8000 late_source)) ''summary''
     = Inr (PStr ''Collected 0 competitor updates this week. AI analysis temporarily unavailable - manual review recommended.'')"
proof -
  have "str_nat 1 = ''1''" and "str_nat 0 = ''0''"
    by code_simp+
  then show ?thesis
    by (simp add: get_fallback_analysis_def Let_def source_line_count_late
          source_line_count_late_cut)
qed

lemma startswith_iff: "startswith s p \<longleftrightarrow> (\<exists>post. s = p @ post)"
proof
  assume "startswith s p"
  then have "s = p @ drop (length p) s"
    by (metis append_take_drop_id startswith_def)
  then show "\<exists>post. s = p @ post" ..
next
  assume "\<exists>post. s = p @ post"
  then show "startswith s p" by (auto simp: startswith_def)
qed

lemma contains_iff: "contains s sub \<longleftrightarrow> (\<exists>pre post. s = pre @ sub @ post)"
proof (induction s)
  case Nil
  show ?case by auto
next
  case (Cons c s)
  show ?case
  proof
    assume "contains (c # s) sub"
    then consider "startswith (c # s) sub" | "contains s sub" by auto
    then show "\<exists>pre post. c # s = pre @ sub @ post"
    proof cases
      case 1
      then obtain post where "c # s = sub @ post" by (auto simp: startswith_iff)
      then have "c # s = [] @ sub @ post" by simp
      then show ?thesis by blast
    next
      case 2
      with Cons obtain pre post where "s = pre @ sub @ post" by blast
      then have "c # s = (c # pre) @ sub @ post" by simp
      then show ?thesis by blast
    qed
  next
    assume "\<exists>pre post. c # s = pre @ sub @ post"
    then obtain pre post where e: "c # s = pre @ sub @ post" by blast
    show "contains (c # s) sub"
    proof (cases pre)
      case Nil
      with e have "startswith (c # s) sub" by (auto simp: startswith_iff)
      then show ?thesis by simp
    next
      case (Cons c' pre')
      with e have "s = pre' @ sub @ post" by simp
      with Cons.IH have "contains s sub" by blast
      then show ?thesis by simp
    qed
  qed
qed

lemma lower_char_letter:
  assumes "97 \<le> (of_char t :: nat)" and "(of_char t :: nat) \<le> 122"
  shows "lower_char c = t \<longleftrightarrow> c = t \<or> (of_char c :: nat) + 32 = of_char t"
proof (cases "(65 \<le> (of_char c :: nat) \<and> (of_char c :: nat) \<le> 90) \<or>
              (192 \<le> (of_char c :: nat) \<and> (of_char c :: nat) \<le> 222 \<and> (of_char c :: nat) \<noteq> 215)")
  case True
  then have l: "lower_char c = char_of ((of_char c :: nat) + 32)"
    by (simp add: lower_char_def Let_def)
  from True have small: "(of_char c :: nat) + 32 < 256" by auto
  have "lower_char c = t \<longleftrightarrow> (of_char (lower_char c) :: nat) = of_char t"
    by simp
  also have "\<dots> \<longleftrightarrow> (of_char c :: nat) + 32 = of_char t"
    using small by (simp add: l)
  finally have a: "lower_char c = t \<longleftrightarrow> (of_char c :: nat) + 32 = of_char t" .
  from True assms have "c \<noteq> t" by auto
  with a show ?thesis by simp
next
  case False
  then have l: "lower_char c = c"
    by (auto simp: lower_char_def Let_def)
  from False assms have "(of_char c :: nat) + 32 \<noteq> of_char t" by auto
  with l show ?thesis by simp
qed

lemma lower_spells:
  assumes "\<forall>t\<in>set target. 97 \<le> (of_char t :: nat) \<and> (of_char t :: nat) \<le> 122"
  shows "map lower_char w = target \<longleftrightarrow> same_ignoring_case w target"
  using assms
proof (induction w arbitrary: target)
  case Nil
  show ?case by (auto simp: same_ignoring_case_def)
next
  case (Cons c w)
  show ?case
  proof (cases target)
    case Nil
    then show ?thesis by (simp add: same_ignoring_case_def)
  next
    case (Cons t ts)
    with Cons.prems have t: "97 \<le> (of_char t :: nat)" "(of_char t :: nat) \<le> 122"
      and ts: "\<forall>t\<in>set ts. 97 \<le> (of_char t :: nat) \<and> (of_char t :: nat) \<le> 122"
      by simp_all
    from Cons.IH [OF ts] have "map lower_char w = ts \<longleftrightarrow> same_ignoring_case w ts" .
    with lower_char_letter [OF t, of c] Cons show ?thesis
      by (simp add: same_ignoring_case_def)
  qed
qed

lemma contains_lower_iff:
  assumes "\<forall>t\<in>set target. 97 \<le> (of_char t :: nat) \<and> (of_char t :: nat) \<le> 122"
  shows "contains (lower line) target
           \<longleftrightarrow> (\<exists>pre w post. line = pre @ w @ post \<and> same_ignoring_case w target)"
proof -
  have "contains (lower line) target
          \<longleftrightarrow> (\<exists>pre w post. line = pre @ w @ post \<and> map lower_char w = target)"
    unfolding contains_iff lower_def
    by (auto simp: map_eq_append_conv append_eq_map_conv) (metis map_append)
  then show ?thesis
    using lower_spells [OF assms] by simp
qed

lemma summary_like_spec: "summary_like line = spec_summary_line line"
proof -
  have u: "\<forall>t\<in>set ''update''. 97 \<le> (of_char t :: nat) \<and> (of_char t :: nat) \<le> 122"
    and c: "\<forall>t\<in>set ''competitor''. 97 \<le> (of_char t :: nat) \<and> (of_char t :: nat) \<le> 122"
    by simp_all
  show ?thesis
    unfolding summary_like_def spec_summary_line_def
      contains_lower_iff [OF u] contains_lower_iff [OF c]
    by blast
qed

lemma blank_isspace:
  "c \<in> {CHR '' '', CHR 0x09, CHR 0x0A, CHR 0x0D} \<Longrightarrow> py_isspace c"
  by (auto simp: py_isspace_def)

lemma strip_between_blanks:
  assumes "\<forall>c\<in>set lead. py_isspace c" and "\<forall>c\<in>set trail. py_isspace c"
    and "body \<noteq> []" and "\<not> py_isspace (hd body)" and "\<not> py_isspace (last body)"
  shows "strip (lead @ body @ trail) = body"
proof -
  from assms(1) have "dropWhile py_isspace (lead @ body @ trail) = dropWhile py_isspace (body @ trail)"
    by (simp add: dropWhile_append2)
  also from assms(3,4) have "\<dots> = body @ trail"
    by (cases body) simp_all
  finally have a: "dropWhile py_isspace (lead @ body @ trail) = body @ trail" .
  have "dropWhile py_isspace (rev trail @ rev body) = dropWhile py_isspace (rev body)"
    by (rule dropWhile_append2) (use assms(2) in simp)
  also from assms(3,5) have "\<dots> = rev body"
    by (simp add: dropWhile_eq_self_iff hd_rev)
  finally have "dropWhile py_isspace (rev (body @ trail)) = rev body"
    by simp
  with a show ?thesis by (simp add: strip_def)
qed

lemma clean_response_fenced:
  assumes "\<forall>c\<in>set lead. py_isspace c" and "\<forall>c\<in>set trail. py_isspace c"
  shows "clean_response (lead @ ''```json'' @ inner @ ''```'' @ trail) = strip inner"
proof -
  let ?f = "''```json'' @ inner @ ''```''"
  have "strip (lead @ ?f @ trail) = ?f"
    using assms by (intro strip_between_blanks) (simp_all add: py_isspace_def)
  then have s: "strip (lead @ ''```json'' @ inner @ ''```'' @ trail) = ?f"
    by simp
  have p: "startswith ?f ''```json''"
    by (simp add: startswith_def)
  have d: "drop 7 ?f = inner @ ''```''"
    by simp
  have e: "endswith (inner @ ''```'') ''```''"
    by (simp add: endswith_def)
  have t: "take (length (inner @ ''```'') - 3) (inner @ ''```'') = inner"
    by simp
  show ?thesis
    unfolding clean_response_def Let_def s using p d e t by simp
qed

lemma require_keys_missing:
  assumes "''summary'' \<notin> fst ` set d \<or> ''categories'' \<notin> fst ` set d \<or> ''key_insights'' \<notin> fst ` set d"
  shows "validate_analysis (PDict d) = Inl ValueError"
proof -
  from assms have "require_keys [''summary'', ''categories'', ''key_insights''] (PDict d)
                     = Inl ValueError"
    by (cases "''summary'' \<in> fst ` set d"; cases "''categories'' \<in> fst ` set d")
       (simp_all add: has_key_def)
  then show ?thesis by (simp add: validate_analysis_def)
qed

lemma minimal_text_ends:
  "minimal_text \<noteq> [] \<and> hd minimal_text = CHR ''{'' \<and> last minimal_text = CHR ''}''"
  by (simp add: minimal_text_def)

lemma fill_categories_other:
  "fill_categories ks c = Inr c' \<Longrightarrow> \<forall>cd. c \<noteq> PDict cd \<Longrightarrow> c' = c"
proof (induction ks arbitrary: c)
  case Nil
  then show ?case by simp
next
  case (Cons k ks)
  from Cons.prems(2) have "\<And>x. py_setitem c k x = Inl TypeError"
    by (cases c) simp_all
  with Cons.prems(1) have "fill_categories ks c = Inr c'"
    by (auto split: sum.splits bool.splits)
  with Cons.IH Cons.prems(2) show ?case by blast
qed

lemma fill_categories_sent:
  assumes "fill_categories category_keys sent = Inr c"
  shows "c = (case sent of
                PDict cd \<Rightarrow>
                  PDict (filled cd)
              | _ \<Rightarrow> sent)"
proof (cases "\<exists>cd. sent = PDict cd")
  case True
  then obtain cd where "sent = PDict cd" by blast
  with assms show ?thesis
    by (simp add: fill_categories_PDict category_keys_def filled_def)
next
  case False
  with fill_categories_other [OF assms] have "c = sent" by blast
  with False show ?thesis by (cases sent) simp_all
qed

lemma analyze_updates_3_provenance:
  "snd (analyze_updates g l t 3) = get_fallback_analysis t
   \<or> (\<exists>attempt<3. \<exists>response.
         g attempt (build_analysis_prompt t) = Inr response \<and>
         (snd (analyze_updates g l t 3) = extract_partial_analysis response \<or>
          (\<exists>j. l (clean_response response) = Inr j \<and>
               validate_analysis j = Inr (snd (analyze_updates g l t 3)))))"
proof -
  let ?r = "snd (analyze_updates g l t 3)"
  let ?p = "build_analysis_prompt t"
  have "?r = get_fallback_analysis t \<or>
        (\<exists>attempt<3. analysis_attempt g l ?p attempt = Inr ?r)"
    by (auto simp: analyze_updates_3 split: sum.splits prod.splits)
  moreover have "\<exists>response. g attempt ?p = Inr response \<and>
         (?r = extract_partial_analysis response \<or>
          (\<exists>j. l (clean_response response) = Inr j \<and> validate_analysis j = Inr ?r))"
    if "analysis_attempt g l ?p attempt = Inr ?r" for attempt
    using that
    by (auto simp: analysis_attempt_def parse_analysis_response_def
             split: sum.splits if_splits)
  ultimately show ?thesis by blast
qed

lemma validated_fields:
  assumes "validate_analysis j = Inr r"
  shows "\<exists>dj sent d.
           j = PDict dj \<and> map_of dj ''categories'' = Some sent \<and> r = PDict d \<and>
           map_of d ''categories''
             = Some (case sent of
                PDict cd \<Rightarrow>
                  PDict (filled cd)
              | _ \<Rightarrow> sent) \<and>
           map_of d ''threat_level''
             = Some (case map_of dj ''threat_level'' of Some v \<Rightarrow> v | None \<Rightarrow> PStr ''medium'')"
proof -
  from validate_analysis_Inr [OF assms] obtain dj sent c where
    j: "j = PDict dj" and s: "map_of dj ''categories'' = Some sent"
    and f: "fill_categories category_keys sent = Inr c"
    and r: "r = PDict (dict_setdefault
                        (dict_setdefault (dict_set dj ''categories'' c)
                           ''threat_level'' (PStr ''medium''))
                        ''recommended_actions'' (PList []))"
    by blast
  let ?d = "dict_setdefault (dict_setdefault (dict_set dj ''categories'' c)
                ''threat_level'' (PStr ''medium'')) ''recommended_actions'' (PList [])"
  have c: "map_of ?d ''categories'' = Some c"
    by (simp add: map_of_dict_setdefault)
  have t: "map_of ?d ''threat_level''
             = Some (case map_of dj ''threat_level'' of Some v \<Rightarrow> v | None \<Rightarrow> PStr ''medium'')"
    by (auto simp: map_of_dict_setdefault has_key_map_of split: option.splits)
  from fill_categories_sent [OF f] c t j s r show ?thesis by blast
qed

lemma py_in_name_in: "py_in name v = Inr True \<longleftrightarrow> name_in name v"
  by (cases v) (simp_all add: name_in_def has_key_def contains_iff)

lemma analysis_fields:
  "\<exists>d c tl.
     snd (analyze_updates g l t 3) = PDict d
     \<and> ''summary'' \<in> fst ` set d \<and> ''categories'' \<in> fst ` set d
     \<and> ''key_insights'' \<in> fst ` set d \<and> ''threat_level'' \<in> fst ` set d
     \<and> ''recommended_actions'' \<in> fst ` set d
     \<and> map_of d ''categories'' = Some c
     \<and> name_in ''new_features'' c \<and> name_in ''pricing_changes'' c
     \<and> name_in ''messaging_updates'' c
     \<and> (c = PDict [(''new_features'', PList []), (''pricing_changes'', PList []),
                    (''messaging_updates'', PList [])]
        \<or> (\<exists>attempt<3. \<exists>response dj sent.
              g attempt (build_analysis_prompt t) = Inr response
              \<and> l (clean_response response) = Inr (PDict dj)
              \<and> map_of dj ''categories'' = Some sent
              \<and> c = (case sent of PDict cd \<Rightarrow> PDict (filled cd) | _ \<Rightarrow> sent)))
     \<and> map_of d ''threat_level'' = Some tl
     \<and> (tl = PStr ''medium''
        \<or> (\<exists>attempt<3. \<exists>response dj.
              g attempt (build_analysis_prompt t) = Inr response
              \<and> l (clean_response response) = Inr (PDict dj)
              \<and> map_of dj ''threat_level'' = Some tl))"
proof -
  let ?r = "snd (analyze_updates g l t 3)"
  from analyze_updates_3_shape [of g l t]
  have k: "has_keys analysis_keys ?r" and f: "categories_filled ?r"
    by blast+
  from has_keys_PDict [OF k] obtain d where d: "?r = PDict d"
    and keys: "\<forall>k\<in>set analysis_keys. has_key d k"
    by blast
  from keys have ks: "''summary'' \<in> fst ` set d \<and> ''categories'' \<in> fst ` set d
     \<and> ''key_insights'' \<in> fst ` set d \<and> ''threat_level'' \<in> fst ` set d
     \<and> ''recommended_actions'' \<in> fst ` set d"
    by (simp add: analysis_keys_def has_key_def)
  from f d obtain c where c: "map_of d ''categories'' = Some c"
    and "list_all (\<lambda>k. py_in k c = Inr True) category_keys"
    by (auto simp: categories_filled_def split: option.splits)
  then have names: "name_in ''new_features'' c \<and> name_in ''pricing_changes'' c
     \<and> name_in ''messaging_updates'' c"
    by (simp add: category_keys_def py_in_name_in)
  from ks obtain tl where tl: "map_of d ''threat_level'' = Some tl"
    by (metis has_key_def has_key_map_of not_None_eq set_map)
  have src: "(c = PDict [(''new_features'', PList []), (''pricing_changes'', PList []),
                    (''messaging_updates'', PList [])] \<and> tl = PStr ''medium'')
        \<or> (\<exists>attempt<3. \<exists>response dj sent.
              g attempt (build_analysis_prompt t) = Inr response
              \<and> l (clean_response response) = Inr (PDict dj)
              \<and> map_of dj ''categories'' = Some sent
              \<and> c = (case sent of PDict cd \<Rightarrow> PDict (filled cd) | _ \<Rightarrow> sent)
              \<and> tl = (case map_of dj ''threat_level'' of Some v \<Rightarrow> v | None \<Rightarrow> PStr ''medium''))"
    using analyze_updates_3_provenance [of g l t]
  proof (elim disjE exE conjE)
    assume "?r = get_fallback_analysis t"
    with d c tl show ?thesis
      by (auto simp: get_fallback_analysis_def Let_def empty_categories_def)
  next
    fix attempt response
    assume "?r = extract_partial_analysis response"
    with d c tl show ?thesis
      by (auto simp: extract_partial_analysis_def empty_categories_def)
  next
    fix attempt response j
    assume a: "attempt < 3" and g: "g attempt (build_analysis_prompt t) = Inr response"
      and lj: "l (clean_response response) = Inr j" and v: "validate_analysis j = Inr ?r"
    from validated_fields [OF v] d c tl obtain dj sent where
      "j = PDict dj" "map_of dj ''categories'' = Some sent"
      "c = (case sent of PDict cd \<Rightarrow> PDict (filled cd) | _ \<Rightarrow> sent)"
      "tl = (case map_of dj ''threat_level'' of Some v \<Rightarrow> v | None \<Rightarrow> PStr ''medium'')"
      by auto
    with a g lj show ?thesis by blast
  qed
  have tlsrc: "tl = PStr ''medium''
        \<or> (\<exists>attempt<3. \<exists>response dj.
              g attempt (build_analysis_prompt t) = Inr response
              \<and> l (clean_response response) = Inr (PDict dj)
              \<and> map_of dj ''threat_level'' = Some tl)"
    using src by (auto split: option.splits)
  have csrc: "c = PDict [(''new_features'', PList []), (''pricing_changes'', PList []),
                    (''messaging_updates'', PList [])]
        \<or> (\<exists>attempt<3. \<exists>response dj sent.
              g attempt (build_analysis_prompt t) = Inr response
              \<and> l (clean_response response) = Inr (PDict dj)
              \<and> map_of dj ''categories'' = Some sent
              \<and> c = (case sent of PDict cd \<Rightarrow> PDict (filled cd) | _ \<Rightarrow> sent))"
    using src by blast
  from d ks c names csrc tl tlsrc show ?thesis by blast
qed

lemma parse_wrong_types:
  "parse_analysis_response (loads_table [(wrong_types_text, wrong_types_json)]) wrong_types_text
   = Inr wrong_types_json"
  by code_simp

section \<open>The claims\<close>

text \<open>
  Claim C3. When each of the three attempts of \<open>analyze_updates\<close> raises (the call to the
  model raises, its text is empty, or parsing raises anything but a JSON decoding error),
  the result is the fallback analysis. Cut the input at its line breaks: the summary
  cites, as a decimal numeral, the number of the lines whose first seven characters are
  \<open>Source:\<close>, and the key insights hold the entry saying that manual review is needed.
\<close>

theorem fallback_when_all_attempts_raise:
  assumes "\<forall>attempt<3. isl (analysis_attempt generate_content loads
                               (build_analysis_prompt updates_text) attempt)"
  shows "\<exists>lines digits.
     lines \<noteq> [] \<and> (\<forall>l\<in>set lines. CHR 0x0A \<notin> set l)
     \<and> updates_text = concat (map (\<lambda>l. l @ [CHR 0x0A]) (butlast lines)) @ last lines
     \<and> is_decimal_of digits (length (filter (\<lambda>l. take 7 l = ''Source:'') lines))
     \<and> py_getitem (snd (analyze_updates generate_content loads updates_text 3)) ''summary''
         = Inr (PStr (''Collected '' @ digits @
             '' competitor updates this week. AI analysis temporarily unavailable - manual review recommended.''))
     \<and> py_getitem (snd (analyze_updates generate_content loads updates_text 3)) ''key_insights''
         = Inr (PList [PStr ''AI analysis failed - manual review needed'',
                       PStr (digits @ '' updates collected for review'')])"
proof -
  let ?p = "build_analysis_prompt updates_text"
  from assms have "isl (analysis_attempt generate_content loads ?p 0)"
    and "isl (analysis_attempt generate_content loads ?p 1)"
    and "isl (analysis_attempt generate_content loads ?p 2)"
    by simp_all
  then obtain e0 e1 e2 where
    "analysis_attempt generate_content loads ?p 0 = Inl e0"
    "analysis_attempt generate_content loads ?p 1 = Inl e1"
    "analysis_attempt generate_content loads ?p 2 = Inl e2"
    by (auto simp: isl_def)
  then have r: "snd (analyze_updates generate_content loads updates_text 3)
                  = get_fallback_analysis updates_text"
    by (simp add: analyze_updates_3)
  show ?thesis
    unfolding r by (rule fallback_counts_source_lines)
qed

theorem fallback_when_all_attempts_raise_witness:
  "isl (analysis_attempt (always_raise (OtherError ''unavailable'')) (loads_table [])
          (build_analysis_prompt two_sources) 0)
   \<and> isl (analysis_attempt (always_raise (OtherError ''unavailable'')) (loads_table [])
          (build_analysis_prompt two_sources) 1)
   \<and> isl (analysis_attempt (always_raise (OtherError ''unavailable'')) (loads_table [])
          (build_analysis_prompt two_sources) 2)
   \<and> (\<exists>lines digits.
         lines \<noteq> [] \<and> (\<forall>l\<in>set lines. CHR 0x0A \<notin> set l)
         \<and> two_sources = concat (map (\<lambda>l. l @ [CHR 0x0A]) (butlast lines)) @ last lines
         \<and> is_decimal_of digits (length (filter (\<lambda>l. take 7 l = ''Source:'') lines))
         \<and> py_getitem (snd (analyze_updates (always_raise (OtherError ''unavailable''))
                              (loads_table []) two_sources 3)) ''summary''
             = Inr (PStr (''Collected '' @ digits @
                 '' competitor updates this week. AI analysis temporarily unavailable - manual review recommended.'')))"
proof -
  have h: "\<forall>attempt<3. isl (analysis_attempt (always_raise (OtherError ''unavailable''))
                       (loads_table []) (build_analysis_prompt two_sources) attempt)"
    by (simp add: analysis_attempt_def always_raise_def)
  from fallback_when_all_attempts_raise
         [of "always_raise (OtherError ''unavailable'')" "loads_table []" two_sources] h
  have "\<exists>lines digits.
         lines \<noteq> [] \<and> (\<forall>l\<in>set lines. CHR 0x0A \<notin> set l)
         \<and> two_sources = concat (map (\<lambda>l. l @ [CHR 0x0A]) (butlast lines)) @ last lines
         \<and> is_decimal_of digits (length (filter (\<lambda>l. take 7 l = ''Source:'') lines))
         \<and> py_getitem (snd (analyze_updates (always_raise (OtherError ''unavailable''))
                              (loads_table []) two_sources 3)) ''summary''
             = Inr (PStr (''Collected '' @ digits @
                 '' competitor updates this week. AI analysis temporarily unavailable - manual review recommended.''))"
    by blast
  with h show ?thesis by simp
qed

text \<open>
  Claim C4. When the webhook answers status 500 at each of the three attempts,
  \<open>send_message\<close> posts three times and returns \<open>False\<close>. Every operation of its body
  that can raise is the POST inside the \<open>try\<close>, so its result carries no exception.
\<close>

theorem send_message_false_on_500:
  assumes "\<forall>attempt<3. post attempt (slack_payload message) = Inr 500"
  shows "send_message post message 3
           = ([Call_send_message message, SlackPost (slack_payload message),
               SlackPost (slack_payload message), SlackPost (slack_payload message)], False)"
proof -
  from assms have "post 0 (slack_payload message) = Inr 500"
    and "post 1 (slack_payload message) = Inr 500"
    and "post 2 (slack_payload message) = Inr 500"
    by simp_all
  then show ?thesis
    by (simp only: send_message_def upt_three) simp
qed

theorem send_message_false_on_500_witness:
  "always_status 500 0 (slack_payload (plain ''hello'')) = Inr 500
   \<and> always_status 500 1 (slack_payload (plain ''hello'')) = Inr 500
   \<and> always_status 500 2 (slack_payload (plain ''hello'')) = Inr 500
   \<and> snd (send_message (always_status 500) (plain ''hello'') 3) = False"
proof -
  have h: "\<forall>attempt<3. always_status 500 attempt (slack_payload (plain ''hello'')) = Inr 500"
    by (simp add: always_status_def)
  from send_message_false_on_500 [of "always_status 500" "plain ''hello''"] h show ?thesis by simp
qed

text \<open>
  Claim C5. For every list of updates, \<open>generate_summary\<close> returns a dictionary whose
  \<open>total_updates\<close> is the length of the list; on the empty list it returns the canned
  summary with \<open>total_updates\<close> 0, and the empty event list shows that the model was not
  called.
\<close>

theorem generate_summary_total_updates:
  "(\<exists>evs d. generate_summary generate_content loads str_of updates = (evs, Inr (PDict d))
            \<and> map_of d ''total_updates'' = Some (PInt (int (length updates))))
   \<and> generate_summary generate_content loads str_of []
       = ([], Inr (PDict [(''summary'', PStr ''No significant competitor updates found this week.''),
                          (''categories'', PDict [(''new_features'', PList []),
                                                  (''pricing_changes'', PList []),
                                                  (''messaging_updates'', PList [])]),
                          (''total_updates'', PInt 0)]))"
proof -
  have empty: "generate_summary generate_content loads str_of []
       = ([], Inr (PDict [(''summary'', PStr ''No significant competitor updates found this week.''),
                          (''categories'', PDict [(''new_features'', PList []),
                                                  (''pricing_changes'', PList []),
                                                  (''messaging_updates'', PList [])]),
                          (''total_updates'', PInt 0)]))"
    by (simp add: generate_summary_def no_updates_summary_def empty_categories_def)
  have "\<exists>evs d. generate_summary generate_content loads str_of updates = (evs, Inr (PDict d))
            \<and> map_of d ''total_updates'' = Some (PInt (int (length updates)))"
  proof (cases "updates = []")
    case True
    with empty show ?thesis by simp
  next
    case False
    let ?r = "analyze_updates generate_content loads (format_updates_for_analysis str_of updates) 3"
    from analyze_updates_3_shape [of generate_content loads]
    have "has_keys analysis_keys (snd ?r)" by blast
    from has_keys_PDict [OF this] obtain d where d: "snd ?r = PDict d" by blast
    obtain evs where "?r = (evs, PDict d)" using d by (cases ?r) simp
    with False show ?thesis by (simp add: generate_summary_def)
  qed
  with empty show ?thesis by blast
qed

text \<open>
  Claim C10. The prompt holds the first 8000 characters of the updates text and nothing
  else of it: it is the prompt of the truncated text, and the calls made to the model
  are those made for the truncated text. The fallback analysis counts over the whole
  text: cut at its line breaks, however long it is, its summary cites the number of the
  lines whose first seven characters are \<open>Source:\<close>. For a text whose only such line
  comes after 8000 characters the summary says 1, and 0 on its first 8000 characters.
\<close>

theorem prompt_truncated_fallback_full:
  "build_analysis_prompt updates_text =
     join_lines prompt_before @ [nl] @ take 8000 updates_text @ ''  '' @ [nl] @
     join_lines prompt_after
   \<and> build_analysis_prompt updates_text = build_analysis_prompt (take 8000 updates_text)
   \<and> fst (analyze_updates generate_content loads updates_text retry_count)
       = fst (analyze_updates generate_content loads (take 8000 updates_text) retry_count)
   \<and> (\<exists>lines digits.
         lines \<noteq> [] \<and> (\<forall>l\<in>set lines. CHR 0x0A \<notin> set l)
         \<and> updates_text = concat (map (\<lambda>l. l @ [CHR 0x0A]) (butlast lines)) @ last lines
         \<and> is_decimal_of digits (length (filter (\<lambda>l. take 7 l = ''Source:'') lines))
         \<and> py_getitem (get_fallback_analysis updates_text) ''summary''
             = Inr (PStr (''Collected '' @ digits @
                 '' competitor updates this week. AI analysis temporarily unavailable - manual review recommended.'')))
   \<and> py_getitem (get_fallback_analysis late_source) ''summary''
       = Inr (PStr ''Collected 1 competitor updates this week. AI analysis temporarily unavailable - manual review recommended.'')
   \<and> py_getitem (get_fallback_analysis (take 8000 late_source)) ''summary''
       = Inr (PStr ''Collected 0 competitor updates this week. AI analysis temporarily unavailable - manual review recommended.'')"
proof -
  have same: "build_analysis_prompt updates_text = build_analysis_prompt (take 8000 updates_text)"
    by (simp add: build_analysis_prompt_def)
  have "fst (analyze_updates generate_content loads updates_text retry_count)
       = fst (analyze_updates generate_content loads (take 8000 updates_text) retry_count)"
    unfolding analyze_updates_def same [symmetric] by (rule analyze_loop_events)
  moreover have "\<exists>lines digits.
         lines \<noteq> [] \<and> (\<forall>l\<in>set lines. CHR 0x0A \<notin> set l)
         \<and> updates_text = concat (map (\<lambda>l. l @ [CHR 0x0A]) (butlast lines)) @ last lines
         \<and> is_decimal_of digits (length (filter (\<lambda>l. take 7 l = ''Source:'') lines))
         \<and> py_getitem (get_fallback_analysis updates_text) ''summary''
             = Inr (PStr (''Collected '' @ digits @
                 '' competitor updates this week. AI analysis temporarily unavailable - manual review recommended.''))"
    using fallback_counts_source_lines [of updates_text] by blast
  ultimately show ?thesis
    using same build_analysis_prompt_shape late_source_summaries
    by blast
qed

theorem prompt_truncated_fallback_full_witness:
  "build_analysis_prompt late_source = build_analysis_prompt (take 8000 late_source)
   \<and> fst (analyze_updates (always_raise ValueError) (loads_table []) late_source 3)
       = fst (analyze_updates (always_raise ValueError) (loads_table []) (take 8000 late_source) 3)
   \<and> (\<exists>lines digits.
         lines \<noteq> [] \<and> (\<forall>l\<in>set lines. CHR 0x0A \<notin> set l)
         \<and> late_source = concat (map (\<lambda>l. l @ [CHR 0x0A]) (butlast lines)) @ last lines
         \<and> is_decimal_of digits (length (filter (\<lambda>l. take 7 l = ''Source:'') lines))
         \<and> py_getitem (get_fallback_analysis late_source) ''summary''
             = Inr (PStr (''Collected '' @ digits @
                 '' competitor updates this week. AI analysis temporarily unavailable - manual review recommended.'')))"
  using prompt_truncated_fallback_full
          [of late_source "always_raise ValueError" "loads_table []" 3]
  by blast

text \<open>
  Claim C2, as the code has it. Whatever the model answers at each of the three attempts,
  \<open>analyze_updates\<close> returns a dictionary with a \<open>categories\<close> entry, and each of the
  three category names is \<open>in\<close> that entry. The entry is either the three empty lists,
  or the \<open>categories\<close> of an answer that decoded to an object: when that is an object
  itself, with each missing name added with an empty list and the rest as sent, and as
  sent when it is anything else.
\<close>

theorem categories_always_filled:
  "\<exists>d c. snd (analyze_updates generate_content loads updates_text 3) = PDict d
     \<and> map_of d ''categories'' = Some c
     \<and> name_in ''new_features'' c \<and> name_in ''pricing_changes'' c
     \<and> name_in ''messaging_updates'' c
     \<and> (c = PDict [(''new_features'', PList []), (''pricing_changes'', PList []),
                    (''messaging_updates'', PList [])]
        \<or> (\<exists>attempt<3. \<exists>response dj sent.
              generate_content attempt (build_analysis_prompt updates_text) = Inr response
              \<and> loads (clean_response response) = Inr (PDict dj)
              \<and> map_of dj ''categories'' = Some sent
              \<and> c = (case sent of PDict cd \<Rightarrow> PDict (filled cd) | _ \<Rightarrow> sent)))"
  using analysis_fields [of generate_content loads updates_text] by blast

theorem categories_always_filled_witness:
  "\<exists>d c. snd (analyze_updates (always_answer string_values_text)
                 (loads_table [(string_values_text, string_values_json)]) two_sources 3) = PDict d
     \<and> map_of d ''categories'' = Some c
     \<and> name_in ''new_features'' c \<and> name_in ''pricing_changes'' c
     \<and> name_in ''messaging_updates'' c"
  using categories_always_filled
          [of "always_answer string_values_text"
              "loads_table [(string_values_text, string_values_json)]" two_sources]
  by blast

text \<open>
  Claim C2 as first stated asks for three keys, each with a list. It fails on two
  well-formed answers: a \<open>categories\<close> that is the list of the three names is returned
  as that list, which has no keys, and category values that are a string and a number
  are returned as sent.
\<close>

theorem categories_keys_or_lists_counterexample:
  "py_getitem (snd (analyze_updates (always_answer list_categories_text)
                      (loads_table [(list_categories_text, list_categories_json)])
                      two_sources 3)) ''categories''
     = Inr (PList [PStr ''new_features'', PStr ''pricing_changes'', PStr ''messaging_updates''])
   \<and> py_getitem (snd (analyze_updates (always_answer string_values_text)
                      (loads_table [(string_values_text, string_values_json)])
                      two_sources 3)) ''categories''
     = Inr (PDict [(''new_features'', PStr ''soon''), (''pricing_changes'', PInt 3),
                   (''messaging_updates'', PList [])])"
proof -
  have "list_categories_text \<noteq> []" and "string_values_text \<noteq> []"
    by (simp_all add: list_categories_text_def string_values_text_def)
  then show ?thesis
    by (simp add: analyze_updates_always_answer parse_list_categories parse_string_values)
qed

text \<open>
  Claim C6, as the code has it. For a non-empty list of updates the summary is a
  dictionary with the entries \<open>summary\<close>, \<open>categories\<close>, \<open>key_insights\<close>,
  \<open>threat_level\<close>, \<open>recommended_actions\<close> and \<open>total_updates\<close>, the last one the length
  of the list. Each of the three category names is \<open>in\<close> the \<open>categories\<close> entry. The
  threat level is \<open>medium\<close> or the \<open>threat_level\<close> of an answer that decoded to an
  object.
\<close>

theorem summary_fields_of_nonempty_run:
  assumes "updates \<noteq> []"
  shows "\<exists>evs d c tl.
           generate_summary generate_content loads str_of updates = (evs, Inr (PDict d))
         \<and> ''summary'' \<in> fst ` set d \<and> ''categories'' \<in> fst ` set d
         \<and> ''key_insights'' \<in> fst ` set d \<and> ''threat_level'' \<in> fst ` set d
         \<and> ''recommended_actions'' \<in> fst ` set d
         \<and> map_of d ''total_updates'' = Some (PInt (int (length updates)))
         \<and> map_of d ''categories'' = Some c
         \<and> name_in ''new_features'' c \<and> name_in ''pricing_changes'' c
         \<and> name_in ''messaging_updates'' c
         \<and> map_of d ''threat_level'' = Some tl
         \<and> (tl = PStr ''medium''
            \<or> (\<exists>attempt<3. \<exists>response dj.
                  generate_content attempt
                    (build_analysis_prompt (format_updates_for_analysis str_of updates))
                    = Inr response
                  \<and> loads (clean_response response) = Inr (PDict dj)
                  \<and> map_of dj ''threat_level'' = Some tl))"
proof -
  let ?t = "format_updates_for_analysis str_of updates"
  let ?r = "analyze_updates generate_content loads ?t 3"
  from analysis_fields [of generate_content loads ?t] obtain d c tl where
    d: "snd ?r = PDict d"
    and k: "''summary'' \<in> fst ` set d" "''categories'' \<in> fst ` set d"
       "''key_insights'' \<in> fst ` set d" "''threat_level'' \<in> fst ` set d"
       "''recommended_actions'' \<in> fst ` set d"
    and c: "map_of d ''categories'' = Some c"
       "name_in ''new_features'' c" "name_in ''pricing_changes'' c"
       "name_in ''messaging_updates'' c"
    and tl: "map_of d ''threat_level'' = Some tl"
       "tl = PStr ''medium''
            \<or> (\<exists>attempt<3. \<exists>response dj.
                  generate_content attempt (build_analysis_prompt ?t) = Inr response
                  \<and> loads (clean_response response) = Inr (PDict dj)
                  \<and> map_of dj ''threat_level'' = Some tl)"
    by blast
  obtain evs where "?r = (evs, PDict d)" using d by (cases ?r) simp
  with assms have g: "generate_summary generate_content loads str_of updates
      = (evs, Inr (PDict (dict_set d ''total_updates'' (PInt (int (length updates))))))"
    by (simp add: generate_summary_def)
  let ?d = "dict_set d ''total_updates'' (PInt (int (length updates)))"
  have keys: "\<And>k. k \<in> fst ` set d \<Longrightarrow> k \<in> fst ` set ?d"
    using has_key_dict_set [of d "''total_updates''"] by (simp add: has_key_def)
  have "map_of ?d ''total_updates'' = Some (PInt (int (length updates)))"
    and "map_of ?d ''categories'' = Some c" and "map_of ?d ''threat_level'' = Some tl"
    using c(1) tl(1) by simp_all
  with g keys [OF k(1)] keys [OF k(2)] keys [OF k(3)] keys [OF k(4)] keys [OF k(5)] c(2-4) tl(2)
  show ?thesis by blast
qed

theorem summary_fields_of_nonempty_run_witness:
  "[one_update] \<noteq> []
   \<and> (\<exists>evs d c tl.
         generate_summary (always_raise ValueError) (loads_table []) str_stub [one_update]
           = (evs, Inr (PDict d))
         \<and> ''summary'' \<in> fst ` set d \<and> ''categories'' \<in> fst ` set d
         \<and> ''key_insights'' \<in> fst ` set d \<and> ''threat_level'' \<in> fst ` set d
         \<and> ''recommended_actions'' \<in> fst ` set d
         \<and> map_of d ''total_updates'' = Some (PInt 1)
         \<and> map_of d ''categories'' = Some c
         \<and> name_in ''new_features'' c \<and> name_in ''pricing_changes'' c
         \<and> name_in ''messaging_updates'' c
         \<and> map_of d ''threat_level'' = Some tl)"
proof -
  have n: "[one_update] \<noteq> []" by simp
  from summary_fields_of_nonempty_run
         [of "[one_update]" "always_raise ValueError" "loads_table []" str_stub] n
  have "\<exists>evs d c tl.
         generate_summary (always_raise ValueError) (loads_table []) str_stub [one_update]
           = (evs, Inr (PDict d))
         \<and> ''summary'' \<in> fst ` set d \<and> ''categories'' \<in> fst ` set d
         \<and> ''key_insights'' \<in> fst ` set d \<and> ''threat_level'' \<in> fst ` set d
         \<and> ''recommended_actions'' \<in> fst ` set d
         \<and> map_of d ''total_updates'' = Some (PInt (int (length [one_update])))
         \<and> map_of d ''categories'' = Some c
         \<and> name_in ''new_features'' c \<and> name_in ''pricing_changes'' c
         \<and> name_in ''messaging_updates'' c
         \<and> map_of d ''threat_level'' = Some tl"
    by blast
  then show ?thesis by simp
qed

text \<open>
  Claim C6 as first stated covers the empty list, and asks for a summary text, three
  category lists, two more lists and a threat level among low, medium and high. The
  summary of the empty list has three entries only; and an answer of the model with a
  number as summary, a list of names as categories, a number and a string where lists are
  expected and the threat level \<open>critical\<close> is returned as sent.
\<close>

theorem summary_fields_counterexample:
  "snd (generate_summary (always_raise ValueError) (loads_table []) str_stub [])
     = Inr (PDict [(''summary'', PStr ''No significant competitor updates found this week.''),
                   (''categories'', PDict [(''new_features'', PList []),
                                           (''pricing_changes'', PList []),
                                           (''messaging_updates'', PList [])]),
                   (''total_updates'', PInt 0)])
   \<and> snd (generate_summary (always_answer wrong_types_text)
            (loads_table [(wrong_types_text, wrong_types_json)]) str_stub [one_update])
     = Inr (PDict [(''summary'', PInt 1),
                   (''categories'',
                      PList [PStr ''new_features'', PStr ''pricing_changes'',
                             PStr ''messaging_updates'']),
                   (''key_insights'', PInt 5),
                   (''threat_level'', PStr ''critical''),
                   (''recommended_actions'', PStr ''none''),
                   (''total_updates'', PInt 1)])"
proof -
  have "wrong_types_text \<noteq> []"
    by (simp add: wrong_types_text_def)
  then have "snd (generate_summary (always_answer wrong_types_text)
            (loads_table [(wrong_types_text, wrong_types_json)]) str_stub [one_update])
     = py_setitem wrong_types_json ''total_updates'' (PInt 1)"
    by (simp add: snd_generate_summary analyze_updates_always_answer parse_wrong_types)
  then show ?thesis
    by (simp add: generate_summary_def no_updates_summary_def empty_categories_def
          wrong_types_json_def)
qed

text \<open>
  Claim C7, as the code has it. Take the serialization of a JSON object (a text from
  \<open>{\<close> to \<open>}\<close>) between a fence opened by \<open>```json\<close> and closed by \<open>```\<close>, with any
  blanks, tabs, carriage returns and line feeds before the fence, after it and around the
  serialization. When the object has the entries \<open>summary\<close> and \<open>key_insights\<close> and an
  object as \<open>categories\<close>, the text is parsed to that object with the three category lists
  back-filled and the two optional fields defaulted. When the object lacks \<open>summary\<close>,
  \<open>categories\<close> or \<open>key_insights\<close>, the parser raises \<open>ValueError\<close>.
\<close>

theorem fenced_json_is_parsed:
  assumes "set lead \<union> set gap1 \<union> set gap2 \<union> set trail
             \<subseteq> {CHR '' '', CHR 0x09, CHR 0x0A, CHR 0x0D}"
    and "body \<noteq> []" and "hd body = CHR ''{''" and "last body = CHR ''}''"
    and "loads body = Inr (PDict d)" and "distinct (map fst d)"
  shows "(''summary'' \<in> fst ` set d \<and> ''key_insights'' \<in> fst ` set d \<and>
          map_of d ''categories'' = Some (PDict c)
          \<longrightarrow> parse_analysis_response loads
                (lead @ ''```json'' @ gap1 @ body @ gap2 @ ''```'' @ trail)
              = Inr (PDict (backfilled d c)))
       \<and> (''summary'' \<notin> fst ` set d \<or> ''categories'' \<notin> fst ` set d \<or>
          ''key_insights'' \<notin> fst ` set d
          \<longrightarrow> parse_analysis_response loads
                (lead @ ''```json'' @ gap1 @ body @ gap2 @ ''```'' @ trail)
              = Inl ValueError)"
proof -
  from assms(1) have ws: "\<forall>c\<in>set lead. py_isspace c" "\<forall>c\<in>set trail. py_isspace c"
    "\<forall>c\<in>set gap1. py_isspace c" "\<forall>c\<in>set gap2. py_isspace c"
    using blank_isspace by blast+
  from assms(3,4) have ends: "\<not> py_isspace (hd body)" "\<not> py_isspace (last body)"
    by (simp_all add: py_isspace_def)
  have "clean_response (lead @ ''```json'' @ (gap1 @ body @ gap2) @ ''```'' @ trail)
          = strip (gap1 @ body @ gap2)"
    using ws(1,2) by (rule clean_response_fenced)
  also have "\<dots> = body"
    using ws(3,4) assms(2) ends by (rule strip_between_blanks)
  finally have cl: "clean_response (lead @ ''```json'' @ gap1 @ body @ gap2 @ ''```'' @ trail) = body"
    by simp
  show ?thesis
  proof (intro conjI impI)
    assume k: "''summary'' \<in> fst ` set d \<and> ''key_insights'' \<in> fst ` set d \<and>
          map_of d ''categories'' = Some (PDict c)"
    then have "validate_analysis (PDict d) = Inr (PDict (backfilled d c))"
      using assms(6) by (intro validate_analysis_backfilled) (simp_all add: has_key_def)
    then show "parse_analysis_response loads
                (lead @ ''```json'' @ gap1 @ body @ gap2 @ ''```'' @ trail)
              = Inr (PDict (backfilled d c))"
      unfolding parse_analysis_response_def cl assms(5) by simp
  next
    assume "''summary'' \<notin> fst ` set d \<or> ''categories'' \<notin> fst ` set d \<or>
          ''key_insights'' \<notin> fst ` set d"
    then have "validate_analysis (PDict d) = Inl ValueError"
      by (rule require_keys_missing)
    then show "parse_analysis_response loads
                (lead @ ''```json'' @ gap1 @ body @ gap2 @ ''```'' @ trail)
              = Inl ValueError"
      unfolding parse_analysis_response_def cl assms(5) by simp
  qed
qed

theorem fenced_json_is_parsed_witness:
  "set [] \<union> set [CHR 0x0D, CHR 0x0A] \<union> set [CHR 0x0A] \<union> set [CHR '' '']
     \<subseteq> {CHR '' '', CHR 0x09, CHR 0x0A, CHR 0x0D}
   \<and> minimal_text \<noteq> [] \<and> hd minimal_text = CHR ''{'' \<and> last minimal_text = CHR ''}''
   \<and> loads_table [(minimal_text, PDict minimal_json)] minimal_text = Inr (PDict minimal_json)
   \<and> distinct (map fst minimal_json)
   \<and> ''summary'' \<in> fst ` set minimal_json \<and> ''key_insights'' \<in> fst ` set minimal_json
   \<and> map_of minimal_json ''categories'' = Some (PDict [])
   \<and> parse_analysis_response (loads_table [(minimal_text, PDict minimal_json)])
        ([] @ ''```json'' @ [CHR 0x0D, CHR 0x0A] @ minimal_text @ [CHR 0x0A] @ ''```'' @ [CHR '' ''])
       = Inr (PDict [(''summary'', PStr ''s''),
                     (''categories'', PDict [(''new_features'', PList []),
                                             (''pricing_changes'', PList []),
                                             (''messaging_updates'', PList [])]),
                     (''key_insights'', PList []),
                     (''threat_level'', PStr ''medium''),
                     (''recommended_actions'', PList [])])"
proof -
  have h1: "set [] \<union> set [CHR 0x0D, CHR 0x0A] \<union> set [CHR 0x0A] \<union> set [CHR '' '']
     \<subseteq> {CHR '' '', CHR 0x09, CHR 0x0A, CHR 0x0D}"
    by simp
  have h2: "loads_table [(minimal_text, PDict minimal_json)] minimal_text = Inr (PDict minimal_json)"
    by (simp add: loads_table_def)
  have h3: "distinct (map fst minimal_json)" and h4: "''summary'' \<in> fst ` set minimal_json"
    and h5: "''key_insights'' \<in> fst ` set minimal_json"
    and h6: "map_of minimal_json ''categories'' = Some (PDict [])"
    by (simp_all add: minimal_json_def)
  have b: "backfilled minimal_json []
             = [(''summary'', PStr ''s''),
                (''categories'', PDict [(''new_features'', PList []),
                                        (''pricing_changes'', PList []),
                                        (''messaging_updates'', PList [])]),
                (''key_insights'', PList []),
                (''threat_level'', PStr ''medium''),
                (''recommended_actions'', PList [])]"
    by (simp add: backfilled_def with_default_def minimal_json_def)
  from fenced_json_is_parsed
         [of "[]" "[CHR 0x0D, CHR 0x0A]" "[CHR 0x0A]" "[CHR '' '']" minimal_text
             "loads_table [(minimal_text, PDict minimal_json)]" minimal_json "[]"]
       h1 h2 h3 h4 h5 h6 minimal_text_ends
  have "parse_analysis_response (loads_table [(minimal_text, PDict minimal_json)])
        ([] @ ''```json'' @ [CHR 0x0D, CHR 0x0A] @ minimal_text @ [CHR 0x0A] @ ''```'' @ [CHR '' ''])
       = Inr (PDict (backfilled minimal_json []))"
    by blast
  then have r: "parse_analysis_response (loads_table [(minimal_text, PDict minimal_json)])
        ([] @ ''```json'' @ [CHR 0x0D, CHR 0x0A] @ minimal_text @ [CHR 0x0A] @ ''```'' @ [CHR '' ''])
       = Inr (PDict [(''summary'', PStr ''s''),
                     (''categories'', PDict [(''new_features'', PList []),
                                             (''pricing_changes'', PList []),
                                             (''messaging_updates'', PList [])]),
                     (''key_insights'', PList []),
                     (''threat_level'', PStr ''medium''),
                     (''recommended_actions'', PList [])])"
    by (simp only: b)
  show ?thesis
    using h1 h2 h3 h4 h5 h6 minimal_text_ends r by blast
qed

text \<open>
  Claim C7 as first stated covers every object and every fence. For the empty object the
  parser raises \<open>ValueError\<close>; a fence opened by a bare \<open>```\<close> is not removed, the
  object is not decoded and the result is the partial analysis.
\<close>

theorem fenced_json_counterexample:
  "parse_analysis_response (loads_table [(''{}'', PDict [])]) (json_fence ''{}'') = Inl ValueError
   \<and> loads_table [(minimal_text, PDict minimal_json)] minimal_text = Inr (PDict minimal_json)
   \<and> parse_analysis_response (loads_table [(minimal_text, PDict minimal_json)])
        (plain_fence minimal_text)
       = Inr (PDict [(''summary'', PStr ''Analysis completed but summary extraction failed.''),
                     (''categories'', PDict [(''new_features'', PList []),
                                             (''pricing_changes'', PList []),
                                             (''messaging_updates'', PList [])]),
                     (''key_insights'', PList []),
                     (''threat_level'', PStr ''medium''),
                     (''recommended_actions'', PList [])])"
  by code_simp

text \<open>
  Claim C8, as the code has it. When decoding the cleaned response raises a JSON decoding
  error, the result is the partial analysis: empty category lists, no key insight, threat
  level \<open>medium\<close>, no recommended action. Its summary comes from the first ten lines of the
  raw text, each stripped: it is the first of them that is longer than 50 characters and
  contains \<open>update\<close> or \<open>competitor\<close> in any mix of upper and lower case, cut to 300
  characters, and a fixed sentence when there is none.
\<close>

theorem parse_failure_salvages_summary:
  assumes "loads (clean_response response_text) = Inl JSONDecodeError"
  shows "\<exists>s. parse_analysis_response loads response_text
               = Inr (PDict [(''summary'', PStr s),
                             (''categories'', PDict [(''new_features'', PList []),
                                                     (''pricing_changes'', PList []),
                                                     (''messaging_updates'', PList [])]),
                             (''key_insights'', PList []),
                             (''threat_level'', PStr ''medium''),
                             (''recommended_actions'', PList [])])
           \<and> (\<forall>i<length (candidate_lines response_text).
                  spec_summary_line (candidate_lines response_text ! i) \<and>
                  (\<forall>j<i. \<not> spec_summary_line (candidate_lines response_text ! j))
                  \<longrightarrow> s = take 300 (candidate_lines response_text ! i))
           \<and> ((\<forall>i<length (candidate_lines response_text).
                   \<not> spec_summary_line (candidate_lines response_text ! i))
                \<longrightarrow> s = no_summary_found)"
proof -
  have code: "\<exists>s. parse_analysis_response loads response_text
                 = Inr (PDict [(''summary'', PStr s),
                               (''categories'', PDict [(''new_features'', PList []),
                                                       (''pricing_changes'', PList []),
                                                       (''messaging_updates'', PList [])]),
                               (''key_insights'', PList []),
                               (''threat_level'', PStr ''medium''),
                               (''recommended_actions'', PList [])])
             \<and> (\<forall>i<length (candidate_lines response_text).
                    summary_like (candidate_lines response_text ! i) \<and>
                    (\<forall>j<i. \<not> summary_like (candidate_lines response_text ! j))
                    \<longrightarrow> s = take 300 (candidate_lines response_text ! i))
             \<and> ((\<forall>i<length (candidate_lines response_text).
                     \<not> summary_like (candidate_lines response_text ! i))
                  \<longrightarrow> s = no_summary_found)"
  proof -
    let ?s = "extract_summary_fallback response_text"
    have "parse_analysis_response loads response_text
                 = Inr (PDict [(''summary'', PStr ?s),
                               (''categories'', PDict [(''new_features'', PList []),
                                                       (''pricing_changes'', PList []),
                                                       (''messaging_updates'', PList [])]),
                               (''key_insights'', PList []),
                               (''threat_level'', PStr ''medium''),
                               (''recommended_actions'', PList [])])"
      using parse_on_decode_error [of loads response_text] assms
      by (simp add: extract_partial_analysis_def empty_categories_def)
    moreover have "\<forall>i<length (candidate_lines response_text).
                    summary_like (candidate_lines response_text ! i) \<and>
                    (\<forall>j<i. \<not> summary_like (candidate_lines response_text ! j))
                    \<longrightarrow> ?s = take 300 (candidate_lines response_text ! i)"
      using extract_summary_fallback_found by blast
    moreover have "(\<forall>i<length (candidate_lines response_text).
                     \<not> summary_like (candidate_lines response_text ! i))
                  \<longrightarrow> ?s = no_summary_found"
      using extract_summary_fallback_none by blast
    ultimately show ?thesis by blast
  qed
  then show ?thesis
    by (simp only: summary_like_spec)
qed

theorem parse_failure_salvages_summary_witness:
  "loads_table [] (clean_response salvage_text) = Inl JSONDecodeError
   \<and> parse_analysis_response (loads_table []) salvage_text
       = Inr (PDict [(''summary'', PStr long_line),
                     (''categories'', PDict [(''new_features'', PList []),
                                             (''pricing_changes'', PList []),
                                             (''messaging_updates'', PList [])]),
                     (''key_insights'', PList []),
                     (''threat_level'', PStr ''medium''),
                     (''recommended_actions'', PList [])])"
proof -
  from parse_failure_salvages_summary [of "loads_table []" salvage_text] decode_error_salvage
  obtain s where
    p: "parse_analysis_response (loads_table []) salvage_text
               = Inr (PDict [(''summary'', PStr s),
                             (''categories'', PDict [(''new_features'', PList []),
                                                     (''pricing_changes'', PList []),
                                                     (''messaging_updates'', PList [])]),
                             (''key_insights'', PList []),
                             (''threat_level'', PStr ''medium''),
                             (''recommended_actions'', PList [])])"
    and f: "\<forall>i<length (candidate_lines salvage_text).
                  spec_summary_line (candidate_lines salvage_text ! i) \<and>
                  (\<forall>j<i. \<not> spec_summary_line (candidate_lines salvage_text ! j))
                  \<longrightarrow> s = take 300 (candidate_lines salvage_text ! i)"
    by blast
  from f [rule_format, of 1] have "s = long_line"
    using summary_like_long_line not_summary_like_sorry
    by (simp add: candidate_lines_salvage take_long_line summary_like_spec)
  with p decode_error_salvage show ?thesis by simp
qed

text \<open>
  Claim C8 as first stated takes the first qualifying line of the raw text. A text
  whose eleventh line qualifies gets the fixed sentence, and a padded line is returned
  stripped.
\<close>

theorem salvaged_summary_counterexample:
  "eleven_lines = concat (replicate 10 [CHR ''x'', CHR 0x0A]) @ long_line
   \<and> spec_summary_line long_line
   \<and> parse_analysis_response (loads_table []) eleven_lines
       = Inr (PDict [(''summary'', PStr ''Analysis completed but summary extraction failed.''),
                     (''categories'', PDict [(''new_features'', PList []),
                                             (''pricing_changes'', PList []),
                                             (''messaging_updates'', PList [])]),
                     (''key_insights'', PList []),
                     (''threat_level'', PStr ''medium''),
                     (''recommended_actions'', PList [])])
   \<and> padded_line = ''   '' @ long_line @ ''  ''
   \<and> CHR 0x0A \<notin> set padded_line
   \<and> spec_summary_line padded_line
   \<and> long_line \<noteq> padded_line
   \<and> parse_analysis_response (loads_table []) padded_line
       = Inr (PDict [(''summary'', PStr long_line),
                     (''categories'', PDict [(''new_features'', PList []),
                                             (''pricing_changes'', PList []),
                                             (''messaging_updates'', PList [])]),
                     (''key_insights'', PList []),
                     (''threat_level'', PStr ''medium''),
                     (''recommended_actions'', PList [])])"
proof -
  have e: "\<And>t. loads_table [] (clean_response t) = Inl JSONDecodeError"
    by (simp add: loads_table_def)
  have a: "eleven_lines = concat (replicate 10 [CHR ''x'', CHR 0x0A]) @ long_line"
    by (simp add: eleven_lines_def nl_def)
  have s1: "spec_summary_line long_line"
    using summary_like_long_line by (simp add: summary_like_spec)
  have r1: "parse_analysis_response (loads_table []) eleven_lines
       = Inr (PDict [(''summary'', PStr ''Analysis completed but summary extraction failed.''),
                     (''categories'', PDict [(''new_features'', PList []),
                                             (''pricing_changes'', PList []),
                                             (''messaging_updates'', PList [])]),
                     (''key_insights'', PList []),
                     (''threat_level'', PStr ''medium''),
                     (''recommended_actions'', PList [])])"
    by (simp add: e parse_on_decode_error extract_partial_analysis_def empty_categories_def
          extract_eleven_lines no_summary_found_def)
  have p: "padded_line = ''   '' @ long_line @ ''  ''"
    by (simp add: padded_line_def)
  have b: "CHR 0x0A \<notin> set padded_line"
    by code_simp
  have "summary_like padded_line"
    by code_simp
  then have s2: "spec_summary_line padded_line"
    by (simp add: summary_like_spec)
  have d: "long_line \<noteq> padded_line"
    by code_simp
  have r2: "parse_analysis_response (loads_table []) padded_line
       = Inr (PDict [(''summary'', PStr long_line),
                     (''categories'', PDict [(''new_features'', PList []),
                                             (''pricing_changes'', PList []),
                                             (''messaging_updates'', PList [])]),
                     (''key_insights'', PList []),
                     (''threat_level'', PStr ''medium''),
                     (''recommended_actions'', PList [])])"
    by (simp add: e parse_on_decode_error extract_partial_analysis_def empty_categories_def
          extract_padded_line)
  show ?thesis
    by (intro conjI) (rule a s1 r1 p b s2 d r2)+
qed

text \<open>
  Claim C9, as the code has it. \<open>send_notifications\<close> runs both notifiers inside one
  \<open>try\<close>, the chat notifier first. When the chat message can be formatted,
  \<open>send_message\<close> is called and then, whatever it returns (also \<open>False\<close> after its three
  attempts), \<open>update_page\<close> is called; nothing the document notifier does can reach the
  chat notifier, which has finished before. When formatting the chat message raises, the
  handler logs the exception and neither notifier is called.
\<close>

theorem notifiers_share_one_try:
  "(\<forall>msg. format_slack_message str_of (slack_generated clk) summary = Inr msg \<longrightarrow>
      (\<exists>content evs.
         format_notion_content (notion_week clk) (notion_generated_at clk) summary = Inr content
         \<and> fst (send_notifications ns str_of clk summary)
             = fst (send_message (slack_post ns) msg 3) @ Call_update_page content # evs))
   \<and> (\<forall>e. format_slack_message str_of (slack_generated clk) summary = Inl e \<longrightarrow>
          send_notifications ns str_of clk summary = ([], Some e))"
proof (intro conjI allI impI)
  fix msg
  assume m: "format_slack_message str_of (slack_generated clk) summary = Inr msg"
  from format_slack_message_dict [OF m] obtain d where d: "summary = PDict d" by blast
  from format_notion_content_dict obtain content where
    c: "format_notion_content (notion_week clk) (notion_generated_at clk) summary = Inr content"
    unfolding d by blast
  from update_page_events obtain evs where
    u: "fst (update_page (build_page_content ns) (notion_post ns) content 3)
          = Call_update_page content # evs"
    by blast
  obtain evs1 sent where s: "send_message (slack_post ns) msg 3 = (evs1, sent)"
    by (cases "send_message (slack_post ns) msg 3")
  obtain evs2 updated where
    p: "update_page (build_page_content ns) (notion_post ns) content 3 = (evs2, updated)"
    by (cases "update_page (build_page_content ns) (notion_post ns) content 3")
  from u p have "evs2 = Call_update_page content # evs" by simp
  with m c s p have "fst (send_notifications ns str_of clk summary)
          = fst (send_message (slack_post ns) msg 3) @ Call_update_page content # evs"
    by (simp add: send_notifications_def)
  with c show "\<exists>content evs.
         format_notion_content (notion_week clk) (notion_generated_at clk) summary = Inr content
         \<and> fst (send_notifications ns str_of clk summary)
             = fst (send_message (slack_post ns) msg 3) @ Call_update_page content # evs"
    by blast
next
  fix e
  assume "format_slack_message str_of (slack_generated clk) summary = Inl e"
  then show "send_notifications ns str_of clk summary = ([], Some e)"
    by (simp add: send_notifications_def)
qed

theorem notifiers_share_one_try_witness:
  "format_slack_message str_stub (slack_generated test_clock) no_updates_summary = Inr quiet_message
   \<and> snd (send_message (slack_post failing_slack) quiet_message 3) = False
   \<and> (\<exists>content evs.
         fst (send_notifications failing_slack str_stub test_clock no_updates_summary)
           = fst (send_message (slack_post failing_slack) quiet_message 3)
             @ Call_update_page content # evs)"
  using notifiers_share_one_try [of str_stub test_clock no_updates_summary failing_slack]
    format_quiet_message send_quiet_message_fails
  by blast

text \<open>
  Claim C9 as first stated lets no failure on the chat side stop the document notifier.
  For the summary of a run in which the model sent the number 5 as \<open>new_features\<close>, the
  chat message cannot be formatted, the page content can, and \<open>update_page\<close> is not
  called although both services answer 200.
\<close>

theorem notifiers_independent_counterexample:
  "snd (generate_summary (always_answer number_text) (loads_table [(number_text, number_json)])
          str_stub [one_update]) = Inr odd_summary
   \<and> format_slack_message str_stub (slack_generated test_clock) odd_summary = Inl TypeError
   \<and> format_notion_content (notion_week test_clock) (notion_generated_at test_clock) odd_summary
       = Inr (PDict [(''title'', PStr ''Competitor Intelligence - Week of 2024-01-10''),
                     (''summary'', PStr ''s''),
                     (''total_updates'', PInt 1),
                     (''categories'', PDict [(''new_features'', PInt 5),
                                             (''pricing_changes'', PList []),
                                             (''messaging_updates'', PList [])]),
                     (''generated_at'', PStr ''2024-01-10T12:00:00'')])
   \<and> send_notifications healthy str_stub test_clock odd_summary = ([], Some TypeError)"
  using odd_summary_reached format_odd_summary notion_odd_summary
  by (simp add: send_notifications_def)

text \<open>
  Claim C1. With the clock at 2024-01-10T12:00:00 and a window of 7 days, the filter drops
  the update dated 8 days ago without a UTC offset, keeps the one dated 1 day ago and the
  one whose date does not parse, and keeps the update dated 8 days ago with the offset
  \<open>+00:00\<close>: comparing its timezone-aware date with the naive cutoff raises
  \<open>TypeError\<close>, which the handler meant for invalid dates catches.
\<close>

theorem filter_keeps_old_aware_update:
  "cutoff_date now_reading 7 = Inr (now_reading - 7 * micros_per_day)
   \<and> fromisoformat_table iso_table ''2024-01-02T12:00:00+00:00''
       = Inr \<lparr>wall = now_reading - 8 * micros_per_day, utcoffset = Some 0\<rparr>
   \<and> filter_recent_updates (fromisoformat_table iso_table) now_reading
        [old_naive, old_aware, recent_naive, undated] 7
       = Inr [old_aware, recent_naive, undated]"
  by code_simp

end
